theory Spec2Isabelle
  imports Main "HOL-Library.Word"
begin

unbundle bit_operations_syntax

section \<open>Data model\<close>

text \<open>
  The program is \<open>sg_ses.c\<close>: it fetches SES diagnostic pages with the SCSI RECEIVE
  DIAGNOSTIC command and prints a decoding of them. A page is a byte buffer; every
  decoder receives the buffer \<open>resp\<close> together with \<open>resp_len\<close>, the length computed from
  the page header. Pointers into the buffer are offsets (\<open>nat\<close>).

  What the program prints is kept as a list of outputs, one per library call, in program
  order. A \<open>printf\<close> is recorded with its format string and its evaluated arguments; the
  formatting itself belongs to the C library and is not modelled.
\<close>

type_synonym byte = "8 word"

datatype arg =
    I int                \<comment> \<open>an integer argument (\<open>%d\<close>, \<open>%x\<close>, \<open>%02x\<close>)\<close>
  | S string             \<comment> \<open>a string constant of the program (\<open>%s\<close>)\<close>
  | B "byte list"        \<comment> \<open>characters taken from a buffer (\<open>%.8s\<close>, \<open>%.*s\<close>)\<close>
  | Q int int            \<comment> \<open>a floating point argument, as the quotient of two integers\<close>
  | F string "arg list"  \<comment> \<open>a character buffer filled by \<open>snprintf\<close>\<close>

datatype printed =
    Printf string "arg list"        \<comment> \<open>\<open>printf\<close>: standard output\<close>
  | Eprintf string "arg list"       \<comment> \<open>\<open>fprintf(stderr, ...)\<close>\<close>
  | DStrHex "byte list" int         \<comment> \<open>\<open>dStrHex\<close> of sg_lib: the bytes dumped, and \<open>no_ascii\<close>\<close>
  | Perror string                   \<comment> \<open>\<open>perror\<close>\<close>
  | Sg_chk_n_print3 arg             \<comment> \<open>\<open>sg_chk_n_print3\<close> of sg_lib\<close>
  | Read_past_buffer nat            \<comment> \<open>a read at an offset outside the allocated buffer\<close>
  | Read_past_array nat             \<comment> \<open>a read at an index outside the header array\<close>
  | Write_past_array nat            \<comment> \<open>a write at an index outside the header array\<close>

text \<open>
  The decoders only print: what they return is a list of outputs. The functions that
  talk to the device return a trace of events, in which the outputs are interleaved with
  the \<open>SG_IO\<close> operations.
\<close>

datatype event =
    Out printed                     \<comment> \<open>something printed\<close>
  | Sg_io "byte list"               \<comment> \<open>the \<open>SG_IO\<close> ioctl, with its command block\<close>

text \<open>
  C leaves a read outside the allocated buffer undefined. The model makes it visible: the
  trace ends with \<open>Read_past_buffer off\<close>, where \<open>off\<close> is the offset of the record or
  field in which the read occurs, and nothing follows it. The header array is treated in
  the same way.
\<close>

definition MX_ALLOC_LEN :: nat where
  "MX_ALLOC_LEN = 4096"

definition MX_ELEM_HDR :: nat where
  "MX_ELEM_HDR = 512"

definition rd :: "byte list \<Rightarrow> nat \<Rightarrow> byte option" where
  "rd resp i = (if i < length resp then Some (resp ! i) else None)"

text \<open>
  \<open>rds resp off n\<close> reads the \<open>n\<close> bytes \<open>resp[off] .. resp[off + n - 1]\<close> as a unit:
  the result is \<open>None\<close> when one of them is outside the buffer. The node name and the
  port and phy records of a transport protocol descriptor and the subenclosure descriptor
  of the Configuration page are read in this way. The code reads such a record with
  several statements; when the end of the buffer cuts the record, the trace ends at the
  record, and the lines that the code prints from the fields before the cut are not in
  it.
\<close>

definition rds :: "byte list \<Rightarrow> nat \<Rightarrow> nat \<Rightarrow> byte list option" where
  "rds resp off n = (if off + n \<le> length resp then Some (take n (drop off resp)) else None)"

type_synonym status4 = "byte \<times> byte \<times> byte \<times> byte"

definition rd4 :: "byte list \<Rightarrow> nat \<Rightarrow> status4 option" where
  "rd4 resp off =
     (if off + 4 \<le> length resp
      then Some (resp ! off, resp ! (off + 1), resp ! (off + 2), resp ! (off + 3))
      else None)"

text \<open>
  \<open>str_at resp off n\<close> is what \<open>printf("%.*s", n, resp + off)\<close> reads: at most \<open>n\<close>
  characters, stopping at a NUL.
\<close>

fun str_at :: "byte list \<Rightarrow> nat \<Rightarrow> nat \<Rightarrow> byte list option" where
  "str_at resp off 0 = Some []"
| "str_at resp off (Suc n) =
     (if off < length resp
      then (if resp ! off = 0 then Some []
            else (case str_at resp (Suc off) n of
                    None \<Rightarrow> None
                  | Some cs \<Rightarrow> Some (resp ! off # cs)))
      else None)"

text \<open>
  \<open>dStrHex(resp + off, len, no_ascii)\<close> dumps \<open>len\<close> bytes, and nothing when \<open>len\<close> is
  not positive.
\<close>

definition dStrHex :: "byte list \<Rightarrow> nat \<Rightarrow> int \<Rightarrow> int \<Rightarrow> printed option" where
  "dStrHex resp off len no_ascii =
     (if len \<le> 0 then Some (DStrHex [] no_ascii)
      else (case rds resp off (nat len) of
              None \<Rightarrow> None
            | Some bs \<Rightarrow> Some (DStrHex bs no_ascii)))"

text \<open>The 32-bit big-endian generation code \<open>(b0 << 24) | (b1 << 16) | (b2 << 8) | b3\<close>.\<close>

definition be32 :: "byte \<Rightarrow> byte \<Rightarrow> byte \<Rightarrow> byte \<Rightarrow> 32 word" where
  "be32 b0 b1 b2 b3 =
     push_bit 24 (ucast b0) OR push_bit 16 (ucast b1) OR push_bit 8 (ucast b2) OR ucast b3"

definition gen_code_at :: "byte list \<Rightarrow> (32 word) option" where
  "gen_code_at resp =
     (if 8 \<le> length resp
      then Some (be32 (resp ! 4) (resp ! 5) (resp ! 6) (resp ! 7))
      else None)"

text \<open>\<open>!!(x & m)\<close> of the source.\<close>

definition nz :: "byte \<Rightarrow> byte \<Rightarrow> int" where
  "nz x m = (if x AND m = 0 then 0 else 1)"

section \<open>Descriptor catalogs\<close>

definition pc_desc_arr :: "(nat \<times> string) list" where
  "pc_desc_arr =
    [(0x0, ''Supported diagnostic pages''),
     (0x1, ''Configuration (SES)''),
     (0x2, ''Enclosure status/control (SES)''),
     (0x3, ''Help text (SES)''),
     (0x4, ''String In/Out (SES)''),
     (0x5, ''Threshold In/Out (SES)''),
     (0x6, ''Array Status/Control (SES, obsolete)''),
     (0x7, ''Element descriptor (SES)''),
     (0x8, ''Short enclosure status (SES)''),
     (0x9, ''Enclosure busy (SES-2)''),
     (0xa, ''Device element status (SES-2)''),
     (0xb, ''Subenclosure help text (SES-2)''),
     (0xc, ''Subenclosure string In/Out (SES-2)''),
     (0xd, ''Supported SES diagnostic pages (SES-2)''),
     (0x3f, ''Protocol specific SAS (SAS-1)''),
     (0x40, ''Translate address (SBC)''),
     (0x41, ''Device status (SBC)'')]"

text \<open>
  The loop shared by \<open>find_page_code_desc\<close> and \<open>find_element_desc\<close>: the first entry
  with the code is returned, and an entry with a larger code ends the search.
\<close>

fun find_desc :: "(nat \<times> string) list \<Rightarrow> nat \<Rightarrow> string option" where
  "find_desc [] num = None"
| "find_desc ((code, desc) # rest) num =
     (if num = code then Some desc
      else if num < code then None
      else find_desc rest num)"

definition find_page_code_desc :: "nat \<Rightarrow> string option" where
  "find_page_code_desc page_num = find_desc pc_desc_arr page_num"

definition element_desc_arr :: "(nat \<times> string) list" where
  "element_desc_arr =
    [(0x0, ''Unspecified''),
     (0x1, ''Device''),
     (0x2, ''Power supply''),
     (0x3, ''Cooling''),
     (0x4, ''Temperature sense''),
     (0x5, ''Door lock''),
     (0x6, ''Audible alarm''),
     (0x7, ''Enclosure service controller electronics''),
     (0x8, ''SCC controller electronics''),
     (0x9, ''Nonvolatile cache''),
     (0xa, ''Invalid operation reason''),
     (0xb, ''Uninterruptible power supply''),
     (0xc, ''Display''),
     (0xd, ''Key pad entry''),
     (0xe, ''Enclosure''),
     (0xf, ''SCSI port/transceiver''),
     (0x10, ''Language''),
     (0x11, ''Communication port''),
     (0x12, ''Voltage sensor''),
     (0x13, ''Current sensor''),
     (0x14, ''SCSI target port''),
     (0x15, ''SCSI initiator port''),
     (0x16, ''Simple subenclosure''),
     (0x17, ''Array device'')]"

definition find_element_desc :: "nat \<Rightarrow> string option" where
  "find_element_desc type_code = find_desc element_desc_arr type_code"

record element_hdr =
  etype :: byte
  num_elements :: byte
  se_id :: byte
  unused :: byte

definition hdr_at :: "element_hdr list \<Rightarrow> nat \<Rightarrow> element_hdr option" where
  "hdr_at ehp k = (if k < length ehp then Some (ehp ! k) else None)"

text \<open>The line that starts every element type of an element-keyed page.\<close>

definition element_type_line :: "string \<Rightarrow> element_hdr \<Rightarrow> printed" where
  "element_type_line indent eh =
     (case find_element_desc (unat (etype eh)) of
        Some cp \<Rightarrow>
          Printf (indent @ ''Element type: %s, subenclosure id: %d\<newline>'')
            [S cp, I (uint (se_id eh))]
      | None \<Rightarrow>
          Printf (indent @ ''Element type: [0x%x], subenclosure id: %d\<newline>'')
            [I (uint (etype eh)), I (uint (se_id eh))])"

definition truncated :: "printed list" where
  "truncated = [Eprintf ''    <<<response too short>>>\<newline>'' []]"

definition state_changed :: "printed list" where
  "state_changed = [Eprintf ''  <<state of enclosure changed, please try again>>\<newline>'' []]"

section \<open>Supported diagnostic pages\<close>

function ses_supported_pages_loop :: "byte list \<Rightarrow> nat \<Rightarrow> nat \<Rightarrow> nat \<Rightarrow> printed list" where
  "ses_supported_pages_loop resp resp_len k prev =
     (if k < resp_len - 4
      then (case rd resp (k + 4) of
              None \<Rightarrow> [Read_past_buffer (k + 4)]
            | Some c \<Rightarrow>
                (if unat c < prev then []
                 else Printf ''  %s [0x%x]\<newline>''
                        [S (case find_page_code_desc (unat c) of
                              Some cp \<Rightarrow> cp
                            | None \<Rightarrow> ''<unknown>''),
                         I (uint c)]
                      # ses_supported_pages_loop resp resp_len (k + 1) (unat c)))
      else [])"
  by pat_completeness auto
termination
  by (relation "measure (\<lambda>(resp, resp_len, k, prev). resp_len - 4 - k)") auto

declare ses_supported_pages_loop.simps [simp del]

definition ses_supported_pages_sdg :: "string \<Rightarrow> byte list \<Rightarrow> nat \<Rightarrow> printed list" where
  "ses_supported_pages_sdg leadin resp resp_len =
     Printf ''%s:\<newline>'' [S leadin] # ses_supported_pages_loop resp resp_len 0 0"

section \<open>Element status\<close>

definition element_status_desc :: "string list" where
  "element_status_desc =
    [''Unsupported'', ''OK'', ''Critical'', ''Non-critical'',
     ''Unrecoverable'', ''Not installed'', ''Unknown'', ''Not available'',
     ''reserved [8]'', ''reserved [9]'', ''reserved [10]'', ''reserved [11]'',
     ''reserved [12]'', ''reserved [13]'', ''reserved [14]'', ''reserved [15]'']"

definition actual_speed_desc :: "string list" where
  "actual_speed_desc =
    [''stopped'', ''at lowest speed'', ''at second lowest speed'',
     ''at third lowest speed'', ''at intermediate speed'',
     ''at third highest speed'', ''at second highest speed'', ''at highest speed'']"

definition nv_cache_unit :: "string list" where
  "nv_cache_unit = [''Bytes'', ''KiB'', ''MiB'', ''GiB'']"

definition invop_type_desc :: "string list" where
  "invop_type_desc =
    [''SEND DIAGNOSTIC page code error'', ''SEND DIAGNOSTIC page format error'',
     ''Reserved'', ''Vendor specific error'']"

text \<open>
  \<open>print_over_elem_status(pad, statp, etype, filter)\<close>. \<open>statp\<close> points into the response
  buffer, and the function reads \<open>statp[0]\<close> to \<open>statp[3]\<close> statement by statement. The
  model is handed the four reads \<open>rd resp ucp\<close> to \<open>rd resp (ucp + 3)\<close>, and each
  statement of the function is a value of type \<open>printed list option\<close>: the lines it
  prints, or \<open>None\<close> when one of the bytes it reads is outside the buffer.
  \<open>(int)(short)((statp[2] << 8) + statp[3])\<close> is the 16-bit two's complement reading of
  the sum.
\<close>

definition short_of :: "byte \<Rightarrow> byte \<Rightarrow> int" where
  "short_of hi lo = sint (word_of_nat (unat hi * 256 + unat lo) :: 16 word)"

type_synonym statp = "byte option \<times> byte option \<times> byte option \<times> byte option"

definition statp_at :: "byte list \<Rightarrow> nat \<Rightarrow> statp" where
  "statp_at resp ucp = (rd resp ucp, rd resp (ucp + 1), rd resp (ucp + 2), rd resp (ucp + 3))"

definition stmt1 :: "byte option \<Rightarrow> (byte \<Rightarrow> printed list) \<Rightarrow> printed list option" where
  "stmt1 a f = (case a of None \<Rightarrow> None | Some x \<Rightarrow> Some (f x))"

definition stmt2 ::
  "byte option \<Rightarrow> byte option \<Rightarrow> (byte \<Rightarrow> byte \<Rightarrow> printed list) \<Rightarrow> printed list option" where
  "stmt2 a b f = (case a of None \<Rightarrow> None | Some x \<Rightarrow> stmt1 b (f x))"

definition stmt3 ::
  "byte option \<Rightarrow> byte option \<Rightarrow> byte option \<Rightarrow> (byte \<Rightarrow> byte \<Rightarrow> byte \<Rightarrow> printed list)
     \<Rightarrow> printed list option" where
  "stmt3 a b c f = (case a of None \<Rightarrow> None | Some x \<Rightarrow> stmt2 b c (f x))"

definition stmt4 ::
  "byte option \<Rightarrow> byte option \<Rightarrow> byte option \<Rightarrow> byte option
     \<Rightarrow> (byte \<Rightarrow> byte \<Rightarrow> byte \<Rightarrow> byte \<Rightarrow> printed list) \<Rightarrow> printed list option" where
  "stmt4 a b c d f = (case a of None \<Rightarrow> None | Some x \<Rightarrow> stmt3 b c d (f x))"

text \<open>
  The statements run in their order. The result is what was printed and whether the last
  statement was reached; the run stops at the first statement that reads outside the
  buffer.
\<close>

fun run_stmts :: "printed list option list \<Rightarrow> printed list \<times> bool" where
  "run_stmts [] = ([], True)"
| "run_stmts (None # rest) = ([], False)"
| "run_stmts (Some ls # rest) = (case run_stmts rest of (ls', reached) \<Rightarrow> (ls @ ls', reached))"

definition print_over_elem_status_stmts ::
  "string \<Rightarrow> statp \<Rightarrow> nat \<Rightarrow> bool \<Rightarrow> printed list option list" where
  "print_over_elem_status_stmts pad statp et filt =
    (case statp of (p0, p1, p2, p3) \<Rightarrow>
      stmt1 p0 (\<lambda>s0.
        [Printf ''%sPredicted failure=%d, swap=%d, status: %s\<newline>''
           [S pad, I (nz s0 0x40), I (nz s0 0x10), S (element_status_desc ! unat (s0 AND 0xf))]])
      #
      (if et = 0 then
         [stmt4 p0 p1 p2 p3 (\<lambda>s0 s1 s2 s3.
            [Printf ''%sstatus in hex: %02x %02x %02x %02x\<newline>''
               [S pad, I (uint s0), I (uint s1), I (uint s2), I (uint s3)]])]
       else if et = 1 then
         [stmt1 p1 (\<lambda>s1. [Printf ''%sSlot address: %d\<newline>'' [S pad, I (uint s1)]]),
          stmt1 p2 (\<lambda>s2.
            if \<not> filt \<or> s2 AND 0xe0 \<noteq> 0 then
              [Printf ''%sApp client bypassed A=%d, Do not remove=%d, Enc bypassed A=%d\<newline>''
                 [S pad, I (nz s2 0x80), I (nz s2 0x40), I (nz s2 0x20)]]
            else []),
          stmt1 p2 (\<lambda>s2.
            if \<not> filt \<or> s2 AND 0x1c \<noteq> 0 then
              [Printf ''%sEnc bypassed B=%d, Ready to insert=%d, RMV=%d, Ident=%d\<newline>''
                 [S pad, I (nz s2 0x10), I (nz s2 0x8), I (nz s2 0x4), I (nz s2 0x2)]]
            else []),
          stmt2 p2 p3 (\<lambda>s2 s3.
            if \<not> filt \<or> (s2 AND 1 \<noteq> 0 \<or> s3 AND 0xe0 \<noteq> 0) then
              [Printf ''%sReport=%d, App client bypassed B=%d, Fault sensed=%d, Fault requested=%d\<newline>''
                 [S pad, I (nz s2 0x1), I (nz s3 0x80), I (nz s3 0x40), I (nz s3 0x20)]]
            else []),
          stmt1 p3 (\<lambda>s3.
            if \<not> filt \<or> s3 AND 0x1e \<noteq> 0 then
              [Printf ''%sDevice off=%d, Bypassed A=%d, Bypassed B=%d, Device bypassed A=%d\<newline>''
                 [S pad, I (nz s3 0x10), I (nz s3 0x8), I (nz s3 0x4), I (nz s3 0x2)]]
            else []),
          stmt1 p3 (\<lambda>s3.
            if \<not> filt \<or> s3 AND 0x1 \<noteq> 0 then
              [Printf ''%sDevice bypassed B=%d\<newline>'' [S pad, I (nz s3 0x1)]]
            else [])]
       else if et = 2 then
         [stmt2 p1 p2 (\<lambda>s1 s2.
            if \<not> filt \<or> (s1 AND 0x80 \<noteq> 0 \<or> s2 AND 0xe \<noteq> 0) then
              [Printf ''%sIdent=%d, DC overvoltage=%d, DC undervoltage=%d, DC overcurrent=%d\<newline>''
                 [S pad, I (nz s1 0x80), I (nz s2 0x8), I (nz s2 0x4), I (nz s2 0x2)]]
            else []),
          stmt1 p3 (\<lambda>s3.
            if \<not> filt \<or> s3 AND 0x78 \<noteq> 0 then
              [Printf ''%sFail=%d, Requested on=%d, Off=%d, Overtemperature fail=%d\<newline>''
                 [S pad, I (nz s3 0x40), I (nz s3 0x20), I (nz s3 0x10), I (nz s3 0x8)]]
            else []),
          stmt1 p3 (\<lambda>s3.
            if \<not> filt \<or> s3 AND 0x7 \<noteq> 0 then
              [Printf ''%sTemperature warn=%d, AC fail=%d, DC fail=%d\<newline>''
                 [S pad, I (nz s3 0x4), I (nz s3 0x2), I (nz s3 0x1)]]
            else [])]
       else if et = 3 then
         [stmt2 p1 p3 (\<lambda>s1 s3.
            if \<not> filt \<or> (s1 AND 0x80 \<noteq> 0 \<or> s3 AND 0x70 \<noteq> 0) then
              [Printf ''%sIdent=%d, Fail=%d, Requested on=%d, Off=%d\<newline>''
                 [S pad, I (nz s1 0x80), I (nz s3 0x40), I (nz s3 0x20), I (nz s3 0x10)]]
            else []),
          stmt3 p1 p2 p3 (\<lambda>s1 s2 s3.
            [Printf ''%sActual speed=%d rpm, Fan %s\<newline>''
               [S pad, I (int ((unat (s1 AND 3) * 256 + unat s2) * 10)),
                S (actual_speed_desc ! unat (s3 AND 7))]])]
       else if et = 4 then
         [stmt2 p1 p3 (\<lambda>s1 s3.
            if \<not> filt \<or> (s1 AND 0x80 \<noteq> 0 \<or> s3 AND 0xf \<noteq> 0) then
              [Printf ''%sIdent=%d, OT Failure=%d, OT warning=%d, UT failure=%d, UT warning=%d\<newline>''
                 [S pad, I (nz s1 0x80), I (nz s3 0x8), I (nz s3 0x4), I (nz s3 0x2),
                  I (nz s3 0x1)]]
            else []),
          stmt1 p2 (\<lambda>s2.
            if s2 \<noteq> 0 then [Printf ''%sTemperature=%d C\<newline>'' [S pad, I (uint s2 - 20)]]
            else [Printf ''%sTemperature: <reserved>\<newline>'' [S pad]])]
       else if et = 5 then
         [stmt2 p1 p3 (\<lambda>s1 s3.
            if \<not> filt \<or> (s1 AND 0x80 \<noteq> 0 \<or> s3 AND 0x1 \<noteq> 0) then
              [Printf ''%sIdent=%d, Unlock=%d\<newline>'' [S pad, I (nz s1 0x80), I (nz s3 0x1)]]
            else [])]
       else if et = 6 then
         [stmt2 p1 p3 (\<lambda>s1 s3.
            if \<not> filt \<or> (s1 AND 0x80 \<noteq> 0 \<or> s3 AND 0xd0 \<noteq> 0) then
              [Printf ''%sIdent=%d, Request mute=%d, Mute=%d, Remind=%d\<newline>''
                 [S pad, I (nz s1 0x80), I (nz s3 0x80), I (nz s3 0x40), I (nz s3 0x10)]]
            else []),
          stmt1 p3 (\<lambda>s3.
            if \<not> filt \<or> s3 AND 0xf \<noteq> 0 then
              [Printf ''%sTone indicator: Info=%d, Non-crit=%d, Crit=%d, Unrecov=%d\<newline>''
                 [S pad, I (nz s3 0x8), I (nz s3 0x4), I (nz s3 0x2), I (nz s3 0x1)]]
            else [])]
       else if et = 7 then
         [stmt2 p1 p2 (\<lambda>s1 s2.
            if \<not> filt \<or> (s1 AND 0x80 \<noteq> 0 \<or> s2 AND 0x1 \<noteq> 0) then
              [Printf ''%sIdent=%d, Report=%d\<newline>'' [S pad, I (nz s1 0x80), I (nz s2 0x1)]]
            else [])]
       else if et = 8 then
         [stmt2 p1 p2 (\<lambda>s1 s2.
            if \<not> filt \<or> (s1 AND 0x80 \<noteq> 0 \<or> s2 AND 0x1 \<noteq> 0) then
              [Printf ''%sIdent=%d, Report=%d\<newline>'' [S pad, I (nz s1 0x80), I (nz s2 0x1)]]
            else [])]
       else if et = 9 then
         [stmt2 p2 p3 (\<lambda>s2 s3. []),
          stmt3 p1 p2 p3 (\<lambda>s1 s2 s3.
            [Printf ''%sIdent=%d, Size multiplier=%d, Non volatile cache size=0x%x\<newline>''
               [S pad, I (nz s1 0x80), I (uint (s1 AND 0x3)), I (int (unat s2 * 256 + unat s3))]]),
          stmt3 p1 p2 p3 (\<lambda>s1 s2 s3.
            [Printf ''%sHence non volatile cache size: %d %s\<newline>''
               [S pad, I (int (unat s2 * 256 + unat s3)), S (nv_cache_unit ! unat (s1 AND 0x3))]])]
       else if et = 0xa then
         [stmt1 p1 (\<lambda>s1.
            [Printf ''%sInvop type=%d   %s\<newline>''
               [S pad, I (uint (drop_bit 6 s1 AND 3)),
                S (invop_type_desc ! unat (drop_bit 6 s1 AND 3))]]),
          (case p1 of
             None \<Rightarrow> None
           | Some s1 \<Rightarrow>
               if drop_bit 6 s1 AND 3 = 0 then
                 Some [Printf ''%sPage not supported=%d\<newline>'' [S pad, I (uint (s1 AND 1))]]
               else if drop_bit 6 s1 AND 3 = 1 then
                 stmt2 p2 p3 (\<lambda>s2 s3.
                   [Printf ''%sByte offset=%d, bit number=%d\<newline>''
                      [S pad, I (int (unat s2 * 256 + unat s3)), I (uint (s1 AND 7))]])
               else if drop_bit 6 s1 AND 3 = 2 \<or> drop_bit 6 s1 AND 3 = 3 then
                 stmt2 p2 p3 (\<lambda>s2 s3.
                   [Printf ''%slast 3 bytes (hex): %02x %02x %02x\<newline>''
                      [S pad, I (uint s1), I (uint s2), I (uint s3)]])
               else Some [])]
       else if et = 0xb then
         [stmt1 p1 (\<lambda>s1.
            if s1 = 0 then [Printf ''%sBattery status: discharged or unknown\<newline>'' [S pad]]
            else if s1 = 255 then
              [Printf ''%sBattery status: 255 or more minutes remaining\<newline>'' [S pad]]
            else [Printf ''%sBattery status: %d minutes remaining\<newline>'' [S pad, I (uint s1)]]),
          stmt1 p2 (\<lambda>s2.
            if \<not> filt \<or> s2 AND 0xf8 \<noteq> 0 then
              [Printf ''%sAC low=%d, AC high=%d, AC qual=%d, AC fail=%d, DC fail=%d\<newline>''
                 [S pad, I (nz s2 0x80), I (nz s2 0x40), I (nz s2 0x20), I (nz s2 0x10),
                  I (nz s2 0x8)]]
            else []),
          stmt2 p2 p3 (\<lambda>s2 s3.
            if \<not> filt \<or> (s2 AND 0x7 \<noteq> 0 \<or> s3 AND 0x83 \<noteq> 0) then
              [Printf ''%sUPS fail=%d, Warn=%d, Intf fail=%d, Ident=%d, Batt fail=%d,BPF=%d\<newline>''
                 [S pad, I (nz s2 0x4), I (nz s2 0x2), I (nz s2 0x1), I (nz s3 0x80),
                  I (nz s3 0x2), I (nz s3 0x1)]]
            else [])]
       else if et = 0xc then
         [stmt1 p1 (\<lambda>s1.
            if \<not> filt \<or> s1 AND 0x80 \<noteq> 0 then
              [Printf ''%sIdent=%d\<newline>'' [S pad, I (nz s1 0x80)]]
            else [])]
       else if et = 0xd then
         [stmt1 p1 (\<lambda>s1.
            if \<not> filt \<or> s1 AND 0x80 \<noteq> 0 then
              [Printf ''%sIdent=%d\<newline>'' [S pad, I (nz s1 0x80)]]
            else [])]
       else if et = 0xe then
         [stmt2 p1 p2 (\<lambda>s1 s2.
            if \<not> filt \<or> (s1 AND 0x80 \<noteq> 0 \<or> s2 AND 0x3 \<noteq> 0) then
              [Printf ''%sIdent=%d, Failure indication=%d, Warning indication=%d\<newline>''
                 [S pad, I (nz s1 0x80), I (nz s2 0x2), I (nz s2 0x1)]]
            else []),
          stmt1 p3 (\<lambda>s3.
            if \<not> filt \<or> s3 AND 0x3 \<noteq> 0 then
              [Printf ''%sFailure requested=%d, Warning requested=%d\<newline>''
                 [S pad, I (nz s3 0x2), I (nz s3 0x1)]]
            else [])]
       else if et = 0xf then
         [stmt3 p1 p2 p3 (\<lambda>s1 s2 s3.
            if \<not> filt \<or> (s1 AND 0x80 \<noteq> 0 \<or> s2 AND 0x1 \<noteq> 0 \<or> s3 AND 0x13 \<noteq> 0) then
              [Printf ''%sIdent=%d, Report=%d, disabled=%d, loss of link=%d, Xmit fail=%d\<newline>''
                 [S pad, I (nz s1 0x80), I (nz s2 0x1), I (nz s3 0x10), I (nz s3 0x2),
                  I (nz s3 0x1)]]
            else [])]
       else if et = 0x10 then
         [(case (p1, p2) of
             (Some s1, Some s2) \<Rightarrow>
               if s2 = 0 then
                 Some [Printf ''%sIdent=%d, Language code: %.2s\<newline>''
                         [S pad, I (nz s1 0x80), B []]]
               else
                 stmt1 p3 (\<lambda>s3.
                   [Printf ''%sIdent=%d, Language code: %.2s\<newline>''
                      [S pad, I (nz s1 0x80), B (if s3 = 0 then [s2] else [s2, s3])]])
           | _ \<Rightarrow> None)]
       else if et = 0x11 then
         [stmt2 p1 p3 (\<lambda>s1 s3.
            if \<not> filt \<or> (s1 AND 0x80 \<noteq> 0 \<or> s3 AND 0x1 \<noteq> 0) then
              [Printf ''%sIdent=%d, Disabled=%d\<newline>'' [S pad, I (nz s1 0x80), I (nz s3 0x1)]]
            else [])]
       else if et = 0x12 then
         [stmt1 p1 (\<lambda>s1.
            if \<not> filt \<or> s1 AND 0x8f \<noteq> 0 then
              [Printf ''%sIdent=%d, Warn Over=%d, Warn Under=%d, Crit Over=%d, Crit Under=%d\<newline>''
                 [S pad, I (nz s1 0x80), I (nz s1 0x8), I (nz s1 0x4), I (nz s1 0x2),
                  I (nz s1 0x1)]]
            else []),
          stmt2 p2 p3 (\<lambda>s2 s3.
            [Printf ''%sVoltage: %.2f volts\<newline>'' [S pad, Q (short_of s2 s3) 100]])]
       else if et = 0x13 then
         [stmt1 p1 (\<lambda>s1.
            if \<not> filt \<or> s1 AND 0x8a \<noteq> 0 then
              [Printf ''%sIdent=%d, Warn Over=%d, Crit Over=%d\<newline>''
                 [S pad, I (nz s1 0x80), I (nz s1 0x8), I (nz s1 0x2)]]
            else []),
          stmt2 p2 p3 (\<lambda>s2 s3.
            [Printf ''%sCurrent: %.2f amps\<newline>'' [S pad, Q (short_of s2 s3) 100]])]
       else if et = 0x14 then
         [stmt3 p1 p2 p3 (\<lambda>s1 s2 s3.
            if \<not> filt \<or> (s1 AND 0x80 \<noteq> 0 \<or> s2 AND 0x1 \<noteq> 0 \<or> s3 AND 0x1 \<noteq> 0) then
              [Printf ''%sIdent=%d, Report=%d, Enabled=%d\<newline>''
                 [S pad, I (nz s1 0x80), I (nz s2 0x1), I (nz s3 0x1)]]
            else [])]
       else if et = 0x15 then
         [stmt3 p1 p2 p3 (\<lambda>s1 s2 s3.
            if \<not> filt \<or> (s1 AND 0x80 \<noteq> 0 \<or> s2 AND 0x1 \<noteq> 0 \<or> s3 AND 0x1 \<noteq> 0) then
              [Printf ''%sIdent=%d, Report=%d, Enabled=%d\<newline>''
                 [S pad, I (nz s1 0x80), I (nz s2 0x1), I (nz s3 0x1)]]
            else [])]
       else if et = 0x16 then
         [stmt2 p1 p3 (\<lambda>s1 s3.
            [Printf ''%sIdent=%d, Short enclosure status: 0x%x\<newline>''
               [S pad, I (nz s1 0x80), I (uint s3)]])]
       else if et = 0x17 then
         [stmt1 p1 (\<lambda>s1.
            if \<not> filt \<or> s1 AND 0xf0 \<noteq> 0 then
              [Printf ''%sOK=%d, Reserved device=%d, Hot spare=%d, Cons check=%d\<newline>''
                 [S pad, I (nz s1 0x80), I (nz s1 0x40), I (nz s1 0x20), I (nz s1 0x10)]]
            else []),
          stmt1 p1 (\<lambda>s1.
            if \<not> filt \<or> s1 AND 0xf \<noteq> 0 then
              [Printf ''%sIn crit array=%d, In failed array=%d, Rebuild/remap=%d, R/R abort=%d\<newline>''
                 [S pad, I (nz s1 0x8), I (nz s1 0x4), I (nz s1 0x2), I (nz s1 0x1)]]
            else []),
          stmt1 p2 (\<lambda>s2.
            if \<not> filt \<or> s2 AND 0xf0 \<noteq> 0 then
              [Printf ''%sApp client bypass A=%d, Don't remove=%d, Enc bypass A=%d, Enc bypass B=%d\<newline>''
                 [S pad, I (nz s2 0x80), I (nz s2 0x40), I (nz s2 0x20), I (nz s2 0x10)]]
            else []),
          stmt1 p2 (\<lambda>s2.
            if \<not> filt \<or> s2 AND 0xf \<noteq> 0 then
              [Printf ''%sReady to insert=%d, RMV=%d, Ident=%d, Report=%d\<newline>''
                 [S pad, I (nz s2 0x8), I (nz s2 0x4), I (nz s2 0x2), I (nz s2 0x1)]]
            else []),
          stmt1 p3 (\<lambda>s3.
            if \<not> filt \<or> s3 AND 0xf0 \<noteq> 0 then
              [Printf ''%sApp client bypass B=%d, Fault sensed=%d, Fault reqstd=%d, Device off=%d\<newline>''
                 [S pad, I (nz s3 0x80), I (nz s3 0x40), I (nz s3 0x20), I (nz s3 0x10)]]
            else []),
          stmt1 p3 (\<lambda>s3.
            if \<not> filt \<or> s3 AND 0xf \<noteq> 0 then
              [Printf ''%sBypassed A=%d, Bypassed B=%d, Dev bypassed A=%d, Dev bypassed B=%d\<newline>''
                 [S pad, I (nz s3 0x8), I (nz s3 0x4), I (nz s3 0x2), I (nz s3 0x1)]]
            else [])]
       else
         [stmt4 p0 p1 p2 p3 (\<lambda>s0 s1 s2 s3.
            [Printf ''%sUnknown element type, status in hex: %02x %02x %02x %02x\<newline>''
               [S pad, I (uint s0), I (uint s1), I (uint s2), I (uint s3)]])]))"

text \<open>
  On a status field that lies inside the buffer every statement runs, and what the
  function prints is:
\<close>

definition print_over_elem_status :: "string \<Rightarrow> status4 \<Rightarrow> nat \<Rightarrow> bool \<Rightarrow> printed list" where
  "print_over_elem_status pad statp et filt =
    (case statp of (s0, s1, s2, s3) \<Rightarrow>
       fst (run_stmts
              (print_over_elem_status_stmts pad (Some s0, Some s1, Some s2, Some s3) et filt)))"

section \<open>Enclosure status page\<close>

text \<open>
  The loops return the events printed and, when they ran to their end, the cursor \<open>ucp\<close>
  they leave behind; \<open>None\<close> stands for a loop cut short by a read outside the buffer.
\<close>

function ses_enclosure_elems ::
  "byte list \<Rightarrow> element_hdr \<Rightarrow> bool \<Rightarrow> bool \<Rightarrow> nat \<Rightarrow> nat \<Rightarrow> printed list \<times> nat option" where
  "ses_enclosure_elems resp eh inner_hex filt j ucp =
     (if j < unat (num_elements eh)
      then (case (if inner_hex
                  then (case rd4 resp ucp of
                          None \<Rightarrow> ([], False)
                        | Some (s0, s1, s2, s3) \<Rightarrow>
                            ([Printf ''      Element %d status(hex): %02x %02x %02x %02x\<newline>''
                                [I (int j + 1), I (uint s0), I (uint s1), I (uint s2),
                                 I (uint s3)]],
                             True))
                  else (case run_stmts
                               (print_over_elem_status_stmts ''       '' (statp_at resp ucp)
                                  (unat (etype eh)) filt) of
                          (ls, reached) \<Rightarrow>
                            (Printf ''      Element %d status:\<newline>'' [I (int j + 1)] # ls,
                             reached))) of
              (ls, False) \<Rightarrow> (ls @ [Read_past_buffer ucp], None)
            | (ls, True) \<Rightarrow>
                (case ses_enclosure_elems resp eh inner_hex filt (j + 1) (ucp + 4) of
                   (rest, r) \<Rightarrow> (ls @ rest, r)))
      else ([], Some ucp))"
  by pat_completeness auto
termination
  by (relation "measure (\<lambda>(resp, eh, inner_hex, filt, j, ucp). unat (num_elements eh) - j)") auto

declare ses_enclosure_elems.simps [simp del]

function ses_enclosure_types ::
  "element_hdr list \<Rightarrow> nat \<Rightarrow> byte list \<Rightarrow> nat \<Rightarrow> bool \<Rightarrow> bool \<Rightarrow> nat \<Rightarrow> nat \<Rightarrow> printed list" where
  "ses_enclosure_types ehp num_telems resp last_ucp inner_hex filt k ucp =
     (if k < num_telems
      then (if ucp + 4 > last_ucp then truncated
            else (case hdr_at ehp k of
                    None \<Rightarrow> [Read_past_array k]
                  | Some eh \<Rightarrow>
                      element_type_line ''    '' eh #
                      (case (if inner_hex
                             then (case rd4 resp ucp of
                                     None \<Rightarrow> ([], False)
                                   | Some (s0, s1, s2, s3) \<Rightarrow>
                                       ([Printf ''    Overall status(hex): %02x %02x %02x %02x\<newline>''
                                           [I (uint s0), I (uint s1), I (uint s2), I (uint s3)]],
                                        True))
                             else (case run_stmts
                                          (print_over_elem_status_stmts ''     ''
                                             (statp_at resp ucp) (unat (etype eh)) filt) of
                                     (ls, reached) \<Rightarrow>
                                       (Printf ''    Overall status:\<newline>'' [] # ls, reached))) of
                         (ls, False) \<Rightarrow> ls @ [Read_past_buffer ucp]
                       | (ls, True) \<Rightarrow>
                           ls @ (case ses_enclosure_elems resp eh inner_hex filt 0 (ucp + 4) of
                                   (evs, None) \<Rightarrow> evs
                                 | (evs, Some ucp') \<Rightarrow>
                                     evs @ ses_enclosure_types ehp num_telems resp last_ucp
                                             inner_hex filt (k + 1) ucp'))))
      else [])"
  by pat_completeness auto
termination
  by (relation "measure (\<lambda>(ehp, num_telems, resp, last_ucp, inner_hex, filt, k, ucp).
                           num_telems - k)") auto

declare ses_enclosure_types.simps [simp del]

definition ses_enclosure_sdg ::
  "element_hdr list \<Rightarrow> nat \<Rightarrow> 32 word \<Rightarrow> byte list \<Rightarrow> nat \<Rightarrow> bool \<Rightarrow> bool \<Rightarrow> printed list" where
  "ses_enclosure_sdg ehp num_telems ref_gen_code resp resp_len inner_hex filt =
     Printf ''Enclosure status diagnostic page:\<newline>'' [] #
     (if resp_len < 4 then truncated
      else (case rd resp 1 of
              None \<Rightarrow> [Read_past_buffer 1]
            | Some r1 \<Rightarrow>
                Printf ''  INVOP=%d, INFO=%d, NON-CRIT=%d, CRIT=%d, UNRECOV=%d\<newline>''
                  [I (nz r1 0x10), I (nz r1 0x8), I (nz r1 0x4), I (nz r1 0x2), I (nz r1 0x1)] #
                (if resp_len < 8 then truncated
                 else (case gen_code_at resp of
                         None \<Rightarrow> [Read_past_buffer 4]
                       | Some gen_code \<Rightarrow>
                           Printf ''  generation code: 0x%x\<newline>'' [I (uint gen_code)] #
                           (if ref_gen_code \<noteq> gen_code then state_changed
                            else ses_enclosure_types ehp num_telems resp (resp_len - 1)
                                   inner_hex filt 0 8)))))"

section \<open>Threshold In page\<close>

definition reserved_or_num :: "int \<Rightarrow> int \<Rightarrow> arg" where
  "reserved_or_num num reserve_num =
     (if num = reserve_num then S ''<res>'' else F ''%d'' [I num])"

text \<open>
  \<open>ses_threshold_helper(pad, tp, etype, p_num, inner_hex)\<close>. \<open>tp\<close> points into the
  response buffer; as for \<open>print_over_elem_status\<close>, the model is handed the four reads of
  the threshold field, and the helper is the list of its statements.
\<close>

definition ses_threshold_helper_stmts ::
  "string \<Rightarrow> statp \<Rightarrow> nat \<Rightarrow> int \<Rightarrow> bool \<Rightarrow> printed list option list" where
  "ses_threshold_helper_stmts pad tp et p_num inner_hex =
     (case tp of (p0, p1, p2, p3) \<Rightarrow>
       (let buff = (if p_num < 0 then S ''Overall threshold''
                    else F ''Element %d threshold'' [I (p_num + 1)])
        in if inner_hex then
             [stmt4 p0 p1 p2 p3 (\<lambda>t0 t1 t2 t3.
                [Printf ''%s%s (in hex): %02x %02x %02x %02x\<newline>''
                   [S pad, buff, I (uint t0), I (uint t1), I (uint t2), I (uint t3)]])]
           else if et = 0x4 then
             [stmt2 p0 p1 (\<lambda>t0 t1.
                [Printf ''%s%s: high critical=%s, high warning=%s\<newline>''
                   [S pad, buff, reserved_or_num (uint t0 - 20) (- 20),
                    reserved_or_num (uint t1 - 20) (- 20)]]),
              stmt2 p2 p3 (\<lambda>t2 t3.
                [Printf ''%s  low warning=%s, low critical=%s (in degrees Celsius)\<newline>''
                   [S pad, reserved_or_num (uint t2 - 20) (- 20),
                    reserved_or_num (uint t3 - 20) (- 20)]])]
           else if et = 0xb then
             [stmt1 p2 (\<lambda>t2.
                [Printf ''%s%s: low warning=%s, ''
                   [S pad, buff,
                    (if t2 = 0 then S ''<vendor>'' else F ''%d'' [I (uint t2)])]]),
              stmt1 p3 (\<lambda>t3.
                [Printf ''low critical=%s (in minutes)\<newline>''
                   [(if t3 = 0 then S ''<vendor>'' else F ''%d'' [I (uint t3)])]])]
           else if et = 0x12 then
             [stmt2 p0 p1 (\<lambda>t0 t1.
                [Printf ''%s%s: high critical=%.1f %%, high warning=%.1f %%\<newline>''
                   [S pad, buff, Q (uint t0) 2, Q (uint t1) 2]]),
              stmt2 p2 p3 (\<lambda>t2 t3.
                [Printf ''%s  low warning=%.1f %%, low critical=%.1f %% (from nominal voltage)\<newline>''
                   [S pad, Q (uint t2) 2, Q (uint t3) 2]])]
           else if et = 0x13 then
             [stmt2 p0 p1 (\<lambda>t0 t1.
                [Printf ''%s%s: high critical=%.1f %%, high warning=%.1f %%\<newline>''
                   [S pad, buff, Q (uint t0) 2, Q (uint t1) 2]]),
              Some [Printf ''%s  (above nominal current)\<newline>'' [S pad]]]
           else []))"

text \<open>
  The helper on a threshold field as a whole: \<open>tp\<close> is the four-byte field when it lies
  inside the buffer, and \<open>None\<close> when no byte of it does. The result is \<open>None\<close> when the
  helper reads the field and the field is not there.
\<close>

definition ses_threshold_helper ::
  "string \<Rightarrow> status4 option \<Rightarrow> nat \<Rightarrow> int \<Rightarrow> bool \<Rightarrow> printed list option" where
  "ses_threshold_helper pad tp et p_num inner_hex =
     (case run_stmts
             (ses_threshold_helper_stmts pad
                (case tp of
                   None \<Rightarrow> (None, None, None, None)
                 | Some (t0, t1, t2, t3) \<Rightarrow> (Some t0, Some t1, Some t2, Some t3))
                et p_num inner_hex) of
        (ls, True) \<Rightarrow> Some ls
      | (ls, False) \<Rightarrow> None)"

function ses_threshold_elems ::
  "byte list \<Rightarrow> element_hdr \<Rightarrow> bool \<Rightarrow> nat \<Rightarrow> nat \<Rightarrow> printed list \<times> nat option" where
  "ses_threshold_elems resp eh inner_hex j ucp =
     (if j < unat (num_elements eh)
      then (case run_stmts
                   (ses_threshold_helper_stmts ''      '' (statp_at resp ucp) (unat (etype eh))
                      (int j) inner_hex) of
              (ls, False) \<Rightarrow> (ls @ [Read_past_buffer ucp], None)
            | (ls, True) \<Rightarrow>
                (case ses_threshold_elems resp eh inner_hex (j + 1) (ucp + 4) of
                   (rest, r) \<Rightarrow> (ls @ rest, r)))
      else ([], Some ucp))"
  by pat_completeness auto
termination
  by (relation "measure (\<lambda>(resp, eh, inner_hex, j, ucp). unat (num_elements eh) - j)") auto

declare ses_threshold_elems.simps [simp del]

function ses_threshold_types ::
  "element_hdr list \<Rightarrow> nat \<Rightarrow> byte list \<Rightarrow> nat \<Rightarrow> bool \<Rightarrow> nat \<Rightarrow> nat \<Rightarrow> printed list" where
  "ses_threshold_types ehp num_telems resp last_ucp inner_hex k ucp =
     (if k < num_telems
      then (if ucp + 4 > last_ucp then truncated
            else (case hdr_at ehp k of
                    None \<Rightarrow> [Read_past_array k]
                  | Some eh \<Rightarrow>
                      element_type_line ''    '' eh #
                      (case run_stmts
                              (ses_threshold_helper_stmts ''    '' (statp_at resp ucp)
                                 (unat (etype eh)) (- 1) inner_hex) of
                         (ls, False) \<Rightarrow> ls @ [Read_past_buffer ucp]
                       | (ls, True) \<Rightarrow>
                           ls @
                           (case ses_threshold_elems resp eh inner_hex 0 (ucp + 4) of
                              (evs', None) \<Rightarrow> evs'
                            | (evs', Some ucp') \<Rightarrow>
                                evs' @ ses_threshold_types ehp num_telems resp last_ucp
                                         inner_hex (k + 1) ucp'))))
      else [])"
  by pat_completeness auto
termination
  by (relation "measure (\<lambda>(ehp, num_telems, resp, last_ucp, inner_hex, k, ucp).
                           num_telems - k)") auto

declare ses_threshold_types.simps [simp del]

definition ses_threshold_sdg ::
  "element_hdr list \<Rightarrow> nat \<Rightarrow> 32 word \<Rightarrow> byte list \<Rightarrow> nat \<Rightarrow> bool \<Rightarrow> printed list" where
  "ses_threshold_sdg ehp num_telems ref_gen_code resp resp_len inner_hex =
     Printf ''Threshold In diagnostic page:\<newline>'' [] #
     (if resp_len < 4 then truncated
      else (case rd resp 1 of
              None \<Rightarrow> [Read_past_buffer 1]
            | Some r1 \<Rightarrow>
                Printf ''  INVOP=%d\<newline>'' [I (nz r1 0x10)] #
                (if resp_len < 8 then truncated
                 else (case gen_code_at resp of
                         None \<Rightarrow> [Read_past_buffer 4]
                       | Some gen_code \<Rightarrow>
                           Printf ''  generation code: 0x%x\<newline>'' [I (uint gen_code)] #
                           (if ref_gen_code \<noteq> gen_code then state_changed
                            else ses_threshold_types ehp num_telems resp (resp_len - 1)
                                   inner_hex 0 8)))))"

section \<open>Element descriptor page\<close>

text \<open>
  One descriptor at \<open>ucp\<close>: \<open>desc_len = (ucp[2] << 8) + ucp[3] + 4\<close> and the text of
  \<open>desc_len - 4\<close> characters at \<open>ucp + 4\<close>. The result is the line printed and
  \<open>desc_len\<close>.
\<close>

definition element_descriptor ::
  "byte list \<Rightarrow> nat \<Rightarrow> string \<Rightarrow> string \<Rightarrow> arg list \<Rightarrow> (printed \<times> nat) option" where
  "element_descriptor resp ucp fmt_text fmt_empty label =
     (case (rd resp (ucp + 2), rd resp (ucp + 3)) of
        (Some hi, Some lo) \<Rightarrow>
          (let desc_len = unat hi * 256 + unat lo + 4
           in if desc_len > 4
              then (case str_at resp (ucp + 4) (desc_len - 4) of
                      None \<Rightarrow> None
                    | Some cs \<Rightarrow>
                        Some (Printf fmt_text (label @ [I (int desc_len - 4), B cs]), desc_len))
              else Some (Printf fmt_empty label, desc_len))
      | _ \<Rightarrow> None)"

function ses_element_desc_elems ::
  "byte list \<Rightarrow> element_hdr \<Rightarrow> nat \<Rightarrow> nat \<Rightarrow> printed list \<times> nat option" where
  "ses_element_desc_elems resp eh j ucp =
     (if j < unat (num_elements eh)
      then (case element_descriptor resp ucp
                   ''      Element %d descriptor: %.*s\<newline>''
                   ''      Element %d descriptor: <empty>\<newline>'' [I (int j + 1)] of
              None \<Rightarrow> ([Read_past_buffer ucp], None)
            | Some (ev, desc_len) \<Rightarrow>
                (case ses_element_desc_elems resp eh (j + 1) (ucp + desc_len) of
                   (rest, r) \<Rightarrow> (ev # rest, r)))
      else ([], Some ucp))"
  by pat_completeness auto
termination
  by (relation "measure (\<lambda>(resp, eh, j, ucp). unat (num_elements eh) - j)") auto

declare ses_element_desc_elems.simps [simp del]

function ses_element_desc_types ::
  "element_hdr list \<Rightarrow> nat \<Rightarrow> byte list \<Rightarrow> nat \<Rightarrow> nat \<Rightarrow> nat \<Rightarrow> printed list" where
  "ses_element_desc_types ehp num_telems resp last_ucp k ucp =
     (if k < num_telems
      then (if ucp + 4 > last_ucp then truncated
            else (case hdr_at ehp k of
                    None \<Rightarrow> [Read_past_array k]
                  | Some eh \<Rightarrow>
                      element_type_line ''    '' eh #
                      (case element_descriptor resp ucp
                              ''    Overall descriptor: %.*s\<newline>''
                              ''    Overall descriptor: <empty>\<newline>'' [] of
                         None \<Rightarrow> [Read_past_buffer ucp]
                       | Some (ev, desc_len) \<Rightarrow>
                           ev #
                           (case ses_element_desc_elems resp eh 0 (ucp + desc_len) of
                              (evs, None) \<Rightarrow> evs
                            | (evs, Some ucp') \<Rightarrow>
                                evs @ ses_element_desc_types ehp num_telems resp last_ucp
                                        (k + 1) ucp'))))
      else [])"
  by pat_completeness auto
termination
  by (relation "measure (\<lambda>(ehp, num_telems, resp, last_ucp, k, ucp). num_telems - k)") auto

declare ses_element_desc_types.simps [simp del]

definition ses_element_desc_sdg ::
  "element_hdr list \<Rightarrow> nat \<Rightarrow> 32 word \<Rightarrow> byte list \<Rightarrow> nat \<Rightarrow> printed list" where
  "ses_element_desc_sdg ehp num_telems ref_gen_code resp resp_len =
     Printf ''Element descriptor In diagnostic page:\<newline>'' [] #
     (if resp_len < 4 then truncated
      else if resp_len < 8 then truncated
      else (case gen_code_at resp of
              None \<Rightarrow> [Read_past_buffer 4]
            | Some gen_code \<Rightarrow>
                Printf ''  generation code: 0x%x\<newline>'' [I (uint gen_code)] #
                (if ref_gen_code \<noteq> gen_code then state_changed
                 else ses_element_desc_types ehp num_telems resp (resp_len - 1) 0 8)))"

section \<open>Device element status page\<close>

definition transport_proto_arr :: "string list" where
  "transport_proto_arr =
    [''Fibre Channel (FCP-2)'',
     ''Parallel SCSI (SPI-5)'',
     ''SSA (SSA-S3P)'',
     ''IEEE 1394 (SBP-3)'',
     ''Remote Direct Memory Access (RDMA)'',
     ''Internet SCSI (iSCSI)'',
     ''Serial Attached SCSI (SAS)'',
     ''Automation/Drive Interface Transport Protocol (ADT)'',
     ''ATA Packet Interface (ATA/ATAPI-7)'',
     ''Ox9'', ''Oxa'', ''Oxb'', ''Oxc'', ''Oxd'', ''Oxe'',
     ''No specific protocol'']"

definition sas_device_type :: "string list" where
  "sas_device_type =
    [''no device attached'',
     ''end device'',
     ''edge expander device'',
     ''fanout expander device'',
     ''reserved [4]'', ''reserved [5]'', ''reserved [6]'', ''reserved [7]'']"

definition hex_bytes :: "byte list \<Rightarrow> printed list" where
  "hex_bytes bs = map (\<lambda>b. Printf ''%02x'' [I (uint b)]) bs"

text \<open>
  The body of the per-port loop of the FCP case, for the record at \<open>per_ucp\<close>: it reads
  \<open>per_ucp[0]\<close> and \<open>per_ucp[4..15]\<close>.
\<close>

definition fcp_port_record :: "byte list \<Rightarrow> nat \<Rightarrow> nat \<Rightarrow> printed list option" where
  "fcp_port_record resp j per_ucp =
     (case rds resp per_ucp 16 of
        None \<Rightarrow> None
      | Some r \<Rightarrow>
          Some ([Printf ''    [%d] port loop position: %d, port requested hard address: %d\<newline>''
                   [I (int j + 1), I (uint (r ! 0)), I (uint (r ! 4))],
                 Printf ''      n_port identifier: %02x%02x%02x\<newline>''
                   [I (uint (r ! 5)), I (uint (r ! 6)), I (uint (r ! 7))],
                 Printf ''      n_port name: '' []]
                @ hex_bytes (take 8 (drop 8 r))
                @ [Printf ''\<newline>'' []]))"

function fcp_ports :: "byte list \<Rightarrow> nat \<Rightarrow> nat \<Rightarrow> nat \<Rightarrow> printed list \<times> bool" where
  "fcp_ports resp ports j per_ucp =
     (if j < ports
      then (case fcp_port_record resp j per_ucp of
              None \<Rightarrow> ([Read_past_buffer per_ucp], False)
            | Some evs \<Rightarrow>
                (case fcp_ports resp ports (j + 1) (per_ucp + 16) of
                   (rest, ok) \<Rightarrow> (evs @ rest, ok)))
      else ([], True))"
  by pat_completeness auto
termination
  by (relation "measure (\<lambda>(resp, ports, j, per_ucp). ports - j)") auto

declare fcp_ports.simps [simp del]

text \<open>
  The body of the per-phy loop of the SAS case, for the record at \<open>per_ucp\<close>: it reads
  \<open>per_ucp[4]\<close>, \<open>per_ucp[6]\<close>, \<open>per_ucp[7]\<close> and \<open>per_ucp[8..24]\<close>. The number it
  prints in brackets is \<open>phys + 1\<close>.
\<close>

definition sas_phy_record :: "byte list \<Rightarrow> nat \<Rightarrow> nat \<Rightarrow> printed list option" where
  "sas_phy_record resp phys per_ucp =
     (case rds resp per_ucp 25 of
        None \<Rightarrow> None
      | Some r \<Rightarrow>
          Some ([Printf ''    [%d] device type: %s\<newline>''
                   [I (int phys + 1), S (sas_device_type ! unat (drop_bit 4 (r ! 4 AND 0x70)))],
                 Printf ''      initiator port for: %s %s %s\<newline>''
                   [S (if r ! 6 AND 8 \<noteq> 0 then ''SSP'' else []),
                    S (if r ! 6 AND 4 \<noteq> 0 then ''STP'' else []),
                    S (if r ! 6 AND 2 \<noteq> 0 then ''SMP'' else [])],
                 Printf ''      target port for: %s %s %s\<newline>''
                   [S (if r ! 7 AND 8 \<noteq> 0 then ''SSP'' else []),
                    S (if r ! 7 AND 4 \<noteq> 0 then ''STP'' else []),
                    S (if r ! 7 AND 2 \<noteq> 0 then ''SMP'' else [])],
                 Printf ''      attached SAS address: '' []]
                @ hex_bytes (take 8 (drop 8 r))
                @ [Printf ''\<newline>      SAS address: '' []]
                @ hex_bytes (take 8 (drop 16 r))
                @ [Printf ''\<newline>      phy identifier: 0x%x\<newline>'' [I (uint (r ! 24))]]))"

function sas_phys :: "byte list \<Rightarrow> nat \<Rightarrow> nat \<Rightarrow> nat \<Rightarrow> printed list \<times> bool" where
  "sas_phys resp phys j per_ucp =
     (if j < phys
      then (case sas_phy_record resp phys per_ucp of
              None \<Rightarrow> ([Read_past_buffer per_ucp], False)
            | Some evs \<Rightarrow>
                (case sas_phys resp phys (j + 1) (per_ucp + 28) of
                   (rest, ok) \<Rightarrow> (evs @ rest, ok)))
      else ([], True))"
  by pat_completeness auto
termination
  by (relation "measure (\<lambda>(resp, phys, j, per_ucp). phys - j)") auto

declare sas_phys.simps [simp del]

text \<open>
  \<open>ses_transport_proto(ucp, len, elem_num)\<close>. The second component of the result tells
  whether the function returned; it is \<open>False\<close> after a read outside the buffer.
\<close>

definition ses_transport_proto :: "byte list \<Rightarrow> nat \<Rightarrow> nat \<Rightarrow> nat \<Rightarrow> printed list \<times> bool" where
  "ses_transport_proto resp ucp len elem_num =
     (case rd resp ucp of
        None \<Rightarrow> ([Read_past_buffer ucp], False)
      | Some u0 \<Rightarrow>
          (if u0 AND 0xf = 0 then
             (case rd resp (ucp + 2) of
                None \<Rightarrow> ([Read_past_buffer (ucp + 2)], False)
              | Some ports \<Rightarrow>
                  (case rds resp (ucp + 4) 8 of
                     None \<Rightarrow>
                       ([Printf ''   [%d] Transport protocol: FCP, number of ports: %d\<newline>''
                           [I (int elem_num + 1), I (uint ports)],
                         Printf ''    node_name: '' [],
                         Read_past_buffer (ucp + 4)], False)
                   | Some node_name \<Rightarrow>
                       (case fcp_ports resp (unat ports) 0 (ucp + 12) of
                          (evs, ok) \<Rightarrow>
                            ([Printf ''   [%d] Transport protocol: FCP, number of ports: %d\<newline>''
                                [I (int elem_num + 1), I (uint ports)],
                              Printf ''    node_name: '' []]
                             @ hex_bytes node_name
                             @ [Printf ''\<newline>'' []]
                             @ evs, ok))))
           else if u0 AND 0xf = 6 then
             (case rd resp (ucp + 2) of
                None \<Rightarrow> ([Read_past_buffer (ucp + 2)], False)
              | Some phys \<Rightarrow>
                  (case rd resp (ucp + 3) of
                     None \<Rightarrow>
                       ([Printf ''   [%d] Transport protocol: SAS, number of phys: %d\<newline>''
                           [I (int elem_num + 1), I (uint phys)],
                         Read_past_buffer (ucp + 3)], False)
                   | Some u3 \<Rightarrow>
                       (case sas_phys resp (unat phys) 0 (ucp + 4) of
                          (evs, ok) \<Rightarrow>
                            ([Printf ''   [%d] Transport protocol: SAS, number of phys: %d\<newline>''
                                [I (int elem_num + 1), I (uint phys)],
                              Printf ''    not all phys: %d\<newline>'' [I (uint (u3 AND 1))]]
                             @ evs, ok))))
           else
             (case dStrHex resp (ucp + 4) (int len - 4) 0 of
                None \<Rightarrow>
                  ([Printf ''   [%d] Transport protocol: %s not decoded, in hex:\<newline>''
                      [I (int elem_num + 1), S (transport_proto_arr ! unat (u0 AND 0xf))],
                    Read_past_buffer (ucp + 4)], False)
              | Some ev \<Rightarrow>
                  ([Printf ''   [%d] Transport protocol: %s not decoded, in hex:\<newline>''
                      [I (int elem_num + 1), S (transport_proto_arr ! unat (u0 AND 0xf))],
                    ev], True))))"

function ses_device_elem_elems ::
  "byte list \<Rightarrow> element_hdr \<Rightarrow> nat \<Rightarrow> nat \<Rightarrow> printed list \<times> nat option" where
  "ses_device_elem_elems resp eh j ucp =
     (if j < unat (num_elements eh)
      then (case rd resp (ucp + 1) of
              None \<Rightarrow> ([Read_past_buffer (ucp + 1)], None)
            | Some u1 \<Rightarrow>
                (case ses_transport_proto resp ucp (unat u1 + 2) j of
                   (evs, False) \<Rightarrow> (evs, None)
                 | (evs, True) \<Rightarrow>
                     (case ses_device_elem_elems resp eh (j + 1) (ucp + (unat u1 + 2)) of
                        (rest, r) \<Rightarrow> (evs @ rest, r))))
      else ([], Some ucp))"
  by pat_completeness auto
termination
  by (relation "measure (\<lambda>(resp, eh, j, ucp). unat (num_elements eh) - j)") auto

declare ses_device_elem_elems.simps [simp del]

function ses_device_elem_types ::
  "element_hdr list \<Rightarrow> nat \<Rightarrow> byte list \<Rightarrow> nat \<Rightarrow> nat \<Rightarrow> nat \<Rightarrow> printed list" where
  "ses_device_elem_types ehp num_telems resp last_ucp k ucp =
     (if k < num_telems
      then (if ucp + 2 > last_ucp then truncated
            else (case hdr_at ehp k of
                    None \<Rightarrow> [Read_past_array k]
                  | Some eh \<Rightarrow>
                      (if etype eh \<noteq> 1 \<and> etype eh \<noteq> 0x17
                       then ses_device_elem_types ehp num_telems resp last_ucp (k + 1) ucp
                       else element_type_line ''  '' eh #
                            (case ses_device_elem_elems resp eh 0 ucp of
                               (evs, None) \<Rightarrow> evs
                             | (evs, Some ucp') \<Rightarrow>
                                 evs @ ses_device_elem_types ehp num_telems resp last_ucp
                                         (k + 1) ucp'))))
      else [])"
  by pat_completeness auto
termination
  by (relation "measure (\<lambda>(ehp, num_telems, resp, last_ucp, k, ucp). num_telems - k)") auto

declare ses_device_elem_types.simps [simp del]

definition ses_device_elem_sdg ::
  "element_hdr list \<Rightarrow> nat \<Rightarrow> 32 word \<Rightarrow> byte list \<Rightarrow> nat \<Rightarrow> printed list" where
  "ses_device_elem_sdg ehp num_telems ref_gen_code resp resp_len =
     Printf ''Device element status diagnostic page:\<newline>'' [] #
     (if resp_len < 4 then truncated
      else (case gen_code_at resp of
              None \<Rightarrow> [Read_past_buffer 4]
            | Some gen_code \<Rightarrow>
                Printf ''  generation code: 0x%x\<newline>'' [I (uint gen_code)] #
                (if ref_gen_code \<noteq> gen_code then state_changed
                 else ses_device_elem_types ehp num_telems resp (resp_len - 1) 0 8)))"

section \<open>Subenclosure help text and string pages\<close>

function ses_subenc_help_loop :: "byte list \<Rightarrow> nat \<Rightarrow> nat \<Rightarrow> nat \<Rightarrow> nat \<Rightarrow> printed list" where
  "ses_subenc_help_loop resp last_ucp num_subs k ucp =
     (if k < num_subs
      then (if ucp + 4 > last_ucp then truncated
            else (case (rd resp (ucp + 2), rd resp (ucp + 3), rd resp (ucp + 1)) of
                    (Some hi, Some lo, Some u1) \<Rightarrow>
                      Printf ''   subenclosure identifier: %d\<newline>'' [I (uint u1)] #
                      (if unat hi * 256 + unat lo + 4 > 4
                       then (case str_at resp (ucp + 4) (unat hi * 256 + unat lo) of
                               None \<Rightarrow> [Read_past_buffer (ucp + 4)]
                             | Some cs \<Rightarrow>
                                 Printf ''    %.*s\<newline>''
                                   [I (int (unat hi * 256 + unat lo)), B cs] #
                                 ses_subenc_help_loop resp last_ucp num_subs (k + 1)
                                   (ucp + (unat hi * 256 + unat lo + 4)))
                       else Printf ''    <empty>\<newline>'' [] #
                            ses_subenc_help_loop resp last_ucp num_subs (k + 1)
                              (ucp + (unat hi * 256 + unat lo + 4)))
                  | _ \<Rightarrow> [Read_past_buffer ucp]))
      else [])"
  by pat_completeness auto
termination
  by (relation "measure (\<lambda>(resp, last_ucp, num_subs, k, ucp). num_subs - k)") auto

declare ses_subenc_help_loop.simps [simp del]

definition ses_subenc_help_sdg :: "byte list \<Rightarrow> nat \<Rightarrow> printed list" where
  "ses_subenc_help_sdg resp resp_len =
     Printf ''Subenclosure help text diagnostic page:\<newline>'' [] #
     (if resp_len < 4 then truncated
      else (case rd resp 1 of
              None \<Rightarrow> [Read_past_buffer 1]
            | Some r1 \<Rightarrow>
                Printf ''  number of subenclosures (other than primary): %d\<newline>''
                  [I (uint r1)] #
                (case gen_code_at resp of
                   None \<Rightarrow> [Read_past_buffer 4]
                 | Some gen_code \<Rightarrow>
                     Printf ''  generation code: 0x%x\<newline>'' [I (uint gen_code)] #
                     ses_subenc_help_loop resp (resp_len - 1) (unat r1 + 1) 0 8)))"

function ses_subenc_string_loop :: "byte list \<Rightarrow> nat \<Rightarrow> nat \<Rightarrow> nat \<Rightarrow> nat \<Rightarrow> printed list" where
  "ses_subenc_string_loop resp last_ucp num_subs k ucp =
     (if k < num_subs
      then (if ucp + 4 > last_ucp then truncated
            else (case (rd resp (ucp + 2), rd resp (ucp + 3), rd resp (ucp + 1)) of
                    (Some hi, Some lo, Some u1) \<Rightarrow>
                      Printf ''   subenclosure identifier: %d\<newline>'' [I (uint u1)] #
                      (if unat hi * 256 + unat lo + 4 > 4
                       then (case dStrHex resp (ucp + 4) (int (unat hi * 256 + unat lo)) 0 of
                               None \<Rightarrow> [Read_past_buffer (ucp + 4)]
                             | Some ev \<Rightarrow>
                                 ev #
                                 ses_subenc_string_loop resp last_ucp num_subs (k + 1)
                                   (ucp + (unat hi * 256 + unat lo + 4)))
                       else Printf ''    <empty>\<newline>'' [] #
                            ses_subenc_string_loop resp last_ucp num_subs (k + 1)
                              (ucp + (unat hi * 256 + unat lo + 4)))
                  | _ \<Rightarrow> [Read_past_buffer ucp]))
      else [])"
  by pat_completeness auto
termination
  by (relation "measure (\<lambda>(resp, last_ucp, num_subs, k, ucp). num_subs - k)") auto

declare ses_subenc_string_loop.simps [simp del]

definition ses_subenc_string_sdg :: "byte list \<Rightarrow> nat \<Rightarrow> printed list" where
  "ses_subenc_string_sdg resp resp_len =
     Printf ''Subenclosure string in diagnostic page:\<newline>'' [] #
     (if resp_len < 4 then truncated
      else (case rd resp 1 of
              None \<Rightarrow> [Read_past_buffer 1]
            | Some r1 \<Rightarrow>
                Printf ''  number of subenclosures (other than primary): %d\<newline>''
                  [I (uint r1)] #
                (case gen_code_at resp of
                   None \<Rightarrow> [Read_past_buffer 4]
                 | Some gen_code \<Rightarrow>
                     Printf ''  generation code: 0x%x\<newline>'' [I (uint gen_code)] #
                     ses_subenc_string_loop resp (resp_len - 1) (unat r1 + 1) 0 8)))"

section \<open>Configuration page\<close>

text \<open>
  What the first loop of \<open>ses_configuration_sdg\<close> prints for a subenclosure descriptor
  of at least 40 bytes at \<open>ucp\<close>, after the three lines every descriptor gets.
\<close>

definition subenc_descriptor_body :: "byte list \<Rightarrow> nat \<Rightarrow> nat \<Rightarrow> printed list option" where
  "subenc_descriptor_body resp ucp el =
     (case (rds resp (ucp + 4) 8, str_at resp (ucp + 12) 8, str_at resp (ucp + 20) 16,
            str_at resp (ucp + 36) 4) of
        (Some logical_id, Some vendor, Some product, Some revision) \<Rightarrow>
          (if el > 40
           then (case dStrHex resp (ucp + 40) (int el - 40) 0 of
                   None \<Rightarrow> None
                 | Some ev \<Rightarrow>
                     Some ([Printf ''      logical id (hex): '' []]
                           @ map (\<lambda>b. Printf ''%02x '' [I (uint b)]) logical_id
                           @ [Printf ''\<newline>      vendor: %.8s  product: %.16s  rev: %.4s\<newline>''
                                [B vendor, B product, B revision],
                              Printf ''      vendor-specific data:\<newline>'' [],
                              ev]))
           else Some ([Printf ''      logical id (hex): '' []]
                      @ map (\<lambda>b. Printf ''%02x '' [I (uint b)]) logical_id
                      @ [Printf ''\<newline>      vendor: %.8s  product: %.16s  rev: %.4s\<newline>''
                           [B vendor, B product, B revision]]))
      | _ \<Rightarrow> None)"

text \<open>
  The first loop: it returns the cursor and \<open>sum_elem_types\<close>, or \<open>None\<close> after
  \<open>goto truncated\<close> and after a read outside the buffer.
\<close>

function ses_configuration_subencs ::
  "byte list \<Rightarrow> nat \<Rightarrow> nat \<Rightarrow> nat \<Rightarrow> nat \<Rightarrow> nat \<Rightarrow> printed list \<times> (nat \<times> nat) option" where
  "ses_configuration_subencs resp last_ucp num_subs k ucp sum_elem_types =
     (if k < num_subs
      then (if ucp + 4 > last_ucp then (truncated, None)
            else (case rd4 resp ucp of
                    None \<Rightarrow> ([Read_past_buffer ucp], None)
                  | Some (u0, u1, u2, u3) \<Rightarrow>
                      (if unat u3 + 4 < 40
                       then (case ses_configuration_subencs resp last_ucp num_subs (k + 1)
                                    (ucp + (unat u3 + 4)) (sum_elem_types + unat u2) of
                               (rest, r) \<Rightarrow>
                                 ([Printf ''    Subenclosure identifier: %d\<newline>'' [I (uint u1)],
                                   Printf ''      relative e.s. process id: %d, number of e.s. processes: %d\<newline>''
                                     [I (uint (drop_bit 4 (u0 AND 0x70))), I (uint (u0 AND 0x7))],
                                   Printf ''      number of element types supported: %d\<newline>''
                                     [I (uint u2)],
                                   Eprintf ''      enc descriptor len=%d ??\<newline>''
                                     [I (int (unat u3 + 4))]]
                                  @ rest, r))
                       else (case subenc_descriptor_body resp ucp (unat u3 + 4) of
                               None \<Rightarrow>
                                 ([Printf ''    Subenclosure identifier: %d\<newline>'' [I (uint u1)],
                                   Printf ''      relative e.s. process id: %d, number of e.s. processes: %d\<newline>''
                                     [I (uint (drop_bit 4 (u0 AND 0x70))), I (uint (u0 AND 0x7))],
                                   Printf ''      number of element types supported: %d\<newline>''
                                     [I (uint u2)],
                                   Read_past_buffer (ucp + 4)], None)
                             | Some evs \<Rightarrow>
                                 (case ses_configuration_subencs resp last_ucp num_subs (k + 1)
                                         (ucp + (unat u3 + 4)) (sum_elem_types + unat u2) of
                                    (rest, r) \<Rightarrow>
                                      ([Printf ''    Subenclosure identifier: %d\<newline>''
                                          [I (uint u1)],
                                        Printf ''      relative e.s. process id: %d, number of e.s. processes: %d\<newline>''
                                          [I (uint (drop_bit 4 (u0 AND 0x70))),
                                           I (uint (u0 AND 0x7))],
                                        Printf ''      number of element types supported: %d\<newline>''
                                          [I (uint u2)]]
                                       @ evs @ rest, r))))))
      else ([], Some (ucp, sum_elem_types)))"
  by pat_completeness auto
termination
  by (relation "measure (\<lambda>(resp, last_ucp, num_subs, k, ucp, sum_elem_types). num_subs - k)")
     auto

declare ses_configuration_subencs.simps [simp del]

function ses_configuration_types ::
  "byte list \<Rightarrow> nat \<Rightarrow> nat \<Rightarrow> nat \<Rightarrow> nat \<Rightarrow> nat \<Rightarrow> printed list" where
  "ses_configuration_types resp last_ucp sum_elem_types k ucp text_ucp =
     (if k < sum_elem_types
      then (if ucp + 4 > last_ucp then truncated
            else (case rd4 resp ucp of
                    None \<Rightarrow> [Read_past_buffer ucp]
                  | Some (u0, u1, u2, u3) \<Rightarrow>
                      (case find_element_desc (unat u0) of
                         Some cp \<Rightarrow>
                           Printf ''    Element type: %s, subenclosure id: %d\<newline>''
                             [S cp, I (uint u2)]
                       | None \<Rightarrow>
                           Printf ''    Element type: [0x%x], subenclosure id: %d\<newline>''
                             [I (uint u0), I (uint u2)]) #
                      Printf ''      possible number of elements: %d\<newline>'' [I (uint u1)] #
                      (if u3 > 0
                       then (if text_ucp > last_ucp then truncated
                             else (case str_at resp text_ucp (unat u3) of
                                     None \<Rightarrow> [Read_past_buffer text_ucp]
                                   | Some cs \<Rightarrow>
                                       Printf ''      Description: %.*s\<newline>''
                                         [I (uint u3), B cs] #
                                       ses_configuration_types resp last_ucp sum_elem_types
                                         (k + 1) (ucp + 4) (text_ucp + unat u3)))
                       else ses_configuration_types resp last_ucp sum_elem_types
                              (k + 1) (ucp + 4) text_ucp)))
      else [])"
  by pat_completeness auto
termination
  by (relation "measure (\<lambda>(resp, last_ucp, sum_elem_types, k, ucp, text_ucp).
                           sum_elem_types - k)") auto

declare ses_configuration_types.simps [simp del]

definition ses_configuration_sdg :: "byte list \<Rightarrow> nat \<Rightarrow> printed list" where
  "ses_configuration_sdg resp resp_len =
     Printf ''Configuration diagnostic page:\<newline>'' [] #
     (if resp_len < 4 then truncated
      else (case rd resp 1 of
              None \<Rightarrow> [Read_past_buffer 1]
            | Some r1 \<Rightarrow>
                Printf ''  number of subenclosures (other than primary): %d\<newline>''
                  [I (uint r1)] #
                (case gen_code_at resp of
                   None \<Rightarrow> [Read_past_buffer 4]
                 | Some gen_code \<Rightarrow>
                     Printf ''  generation code: 0x%x\<newline>'' [I (uint gen_code)] #
                     (case ses_configuration_subencs resp (resp_len - 1) (unat r1 + 1) 0 8 0 of
                        (evs, None) \<Rightarrow> evs
                      | (evs, Some (ucp, sum_elem_types)) \<Rightarrow>
                          evs @ Printf ''\<newline>'' [] #
                          ses_configuration_types resp (resp_len - 1) sum_elem_types 0 ucp
                            (ucp + sum_elem_types * 4)))))"

section \<open>The transport\<close>

text \<open>
  The \<open>SG_IO\<close> ioctl and \<open>sg_err_category3\<close> belong to the operating system and to sg_lib.
  The device is a parameter: a state \<open>'d\<close> and a function that receives the command block
  and the transfer length and answers with the outcome and the next state. The outcome
  is a failed ioctl, or the error category together with the bytes the device transferred.
\<close>

datatype sg_lib_cat = SG_LIB_CAT_CLEAN | SG_LIB_CAT_RECOVERED | SG_LIB_CAT_OTHER

datatype sg_io_result = Ioctl_failed | Ioctl_done sg_lib_cat "byte list"

type_synonym 'd sg_io = "'d \<Rightarrow> byte list \<Rightarrow> nat \<Rightarrow> sg_io_result \<times> 'd"

definition rcvdiagCmdBlk :: "bool \<Rightarrow> nat \<Rightarrow> nat \<Rightarrow> byte list" where
  "rcvdiagCmdBlk pcv pg_code mx_resp_len =
     [0x1c, (if pcv then 1 else 0), of_nat pg_code,
      of_nat ((mx_resp_len div 256) mod 256), of_nat (mx_resp_len mod 256), 0]"

text \<open>
  \<open>do_rcvdiag\<close> returns the events, the return value (0 or -1), the buffer \<open>resp\<close> after
  the call and the next state of the device. The device overwrites the start of the
  buffer with what it transfers, at most \<open>mx_resp_len\<close> bytes.
\<close>

definition do_rcvdiag ::
  "'d sg_io \<Rightarrow> 'd \<Rightarrow> bool \<Rightarrow> nat \<Rightarrow> byte list \<Rightarrow> nat \<Rightarrow> bool \<Rightarrow> nat
     \<Rightarrow> event list \<times> int \<times> byte list \<times> 'd" where
  "do_rcvdiag io sg_fd pcv pg_code resp mx_resp_len noisy verbose =
     (let cdb = rcvdiagCmdBlk pcv pg_code mx_resp_len;
          evs = map Out
                  (if verbose \<noteq> 0
                   then [Eprintf ''    Receive diagnostic cdb: '' []]
                        @ map (\<lambda>b. Eprintf ''%02x '' [I (uint b)]) cdb
                        @ [Eprintf ''\<newline>'' []]
                   else [])
                @ [Sg_io cdb]
      in case io sg_fd cdb mx_resp_len of
           (Ioctl_failed, sg_fd') \<Rightarrow>
             (evs @ [Out (Perror ''SG_IO (receive diagnostic) error'')], - 1, resp, sg_fd')
         | (Ioctl_done cat data, sg_fd') \<Rightarrow>
             (case cat of
                SG_LIB_CAT_CLEAN \<Rightarrow>
                  (evs, 0, take mx_resp_len data @ drop (length (take mx_resp_len data)) resp,
                   sg_fd')
              | SG_LIB_CAT_RECOVERED \<Rightarrow>
                  (evs, 0, take mx_resp_len data @ drop (length (take mx_resp_len data)) resp,
                   sg_fd')
              | SG_LIB_CAT_OTHER \<Rightarrow>
                  (evs @ (if noisy
                          then [Out (Sg_chk_n_print3
                                       (F ''Receive diagnostic error, pcv=%d, page_code=%x ''
                                          [I (if pcv then 1 else 0), I (int pg_code)]))]
                          else []),
                   - 1, take mx_resp_len data @ drop (length (take mx_resp_len data)) resp,
                   sg_fd')))"

section \<open>Building the element map\<close>

text \<open>
  The first loop of \<open>populate_element_hdr_arr\<close>: it returns the cursor and
  \<open>sum_elem_types\<close>, or \<open>None\<close> after \<open>goto p_truncated\<close>.
\<close>

function populate_subencs ::
  "byte list \<Rightarrow> nat \<Rightarrow> nat \<Rightarrow> nat \<Rightarrow> nat \<Rightarrow> nat \<Rightarrow> printed list \<times> (nat \<times> nat) option" where
  "populate_subencs resp last_ucp num_subs k ucp sum_elem_types =
     (if k < num_subs
      then (if ucp + 4 > last_ucp
            then ([Eprintf ''populate: config too short\<newline>'' []], None)
            else (case (rd resp (ucp + 3), rd resp (ucp + 2)) of
                    (Some u3, Some u2) \<Rightarrow>
                      (case populate_subencs resp last_ucp num_subs (k + 1)
                              (ucp + (unat u3 + 4)) (sum_elem_types + unat u2) of
                         (rest, r) \<Rightarrow>
                           ((if unat u3 + 4 < 40
                             then [Eprintf ''populate: short enc descriptor len=%d ??\<newline>''
                                     [I (int (unat u3 + 4))]]
                             else [])
                            @ rest, r))
                  | _ \<Rightarrow> ([Read_past_buffer ucp], None)))
      else ([], Some (ucp, sum_elem_types)))"
  by pat_completeness auto
termination
  by (relation "measure (\<lambda>(resp, last_ucp, num_subs, k, ucp, sum_elem_types). num_subs - k)")
     auto

declare populate_subencs.simps [simp del]

text \<open>
  The second loop writes \<open>ehp[k]\<close>. It returns the array after the loop and whether the
  loop ran to its end.
\<close>

function populate_types ::
  "byte list \<Rightarrow> nat \<Rightarrow> nat \<Rightarrow> nat \<Rightarrow> nat \<Rightarrow> element_hdr list
     \<Rightarrow> printed list \<times> element_hdr list \<times> bool" where
  "populate_types resp last_ucp sum_elem_types k ucp ehp =
     (if k < sum_elem_types
      then (if ucp + 4 > last_ucp
            then ([Eprintf ''populate: config too short\<newline>'' []], ehp, False)
            else if k \<ge> MX_ELEM_HDR
            then ([Eprintf ''populate: too many elements\<newline>'' []], ehp, False)
            else (case (rd resp ucp, rd resp (ucp + 1), rd resp (ucp + 2)) of
                    (Some u0, Some u1, Some u2) \<Rightarrow>
                      (if k < length ehp
                       then populate_types resp last_ucp sum_elem_types (k + 1) (ucp + 4)
                              (ehp[k := \<lparr>etype = u0, num_elements = u1, se_id = u2, unused = 0\<rparr>])
                       else ([Write_past_array k], ehp, False))
                  | _ \<Rightarrow> ([Read_past_buffer ucp], ehp, False)))
      else ([], ehp, True))"
  by pat_completeness auto
termination
  by (relation "measure (\<lambda>(resp, last_ucp, sum_elem_types, k, ucp, ehp). sum_elem_types - k)")
     auto

declare populate_types.simps [simp del]

text \<open>
  \<open>populate_element_hdr_arr(fd, ehp, generationp, verbose)\<close>. \<open>resp0\<close> is the content of
  the local buffer \<open>resp[MX_ALLOC_LEN]\<close> before the call, which C leaves indeterminate.
  The result holds the events, the array \<open>ehp\<close> after the call and the outcome: \<open>None\<close>
  for the return value -1, and \<open>Some (sum_elem_types, gen_code)\<close> for the return value
  \<open>sum_elem_types\<close> with \<open>gen_code\<close> stored through \<open>generationp\<close>.
\<close>

definition populate_element_hdr_arr ::
  "'d sg_io \<Rightarrow> 'd \<Rightarrow> element_hdr list \<Rightarrow> byte list \<Rightarrow> nat
     \<Rightarrow> (event list \<times> element_hdr list \<times> (nat \<times> 32 word) option) \<times> 'd" where
  "populate_element_hdr_arr io fd ehp resp0 verbose =
     (case do_rcvdiag io fd True 1 resp0 MX_ALLOC_LEN True verbose of
        (ev, rc, resp, fd') \<Rightarrow>
          (if rc = 0 then
             (case (rd resp 2, rd resp 3, rd resp 0, rd resp 1) of
                (Some r2, Some r3, Some r0, Some r1) \<Rightarrow>
                  (let resp_len0 = unat r2 * 256 + unat r3 + 4;
                       warn = (if resp_len0 > MX_ALLOC_LEN
                               then [Eprintf ''<<< warning response buffer too small [%d but need %d]>>>\<newline>''
                                       [I (int MX_ALLOC_LEN), I (int resp_len0)]]
                               else []);
                       resp_len = (if resp_len0 > MX_ALLOC_LEN then MX_ALLOC_LEN else resp_len0)
                   in if r0 \<noteq> 1 then
                        (ev @ map Out warn @
                         [Out
                           (if r0 = 0x9 \<and> r1 AND 1 \<noteq> 0
                          then Printf ''Enclosure busy, try again later\<newline>'' []
                          else if r0 = 0x8
                          then Printf ''Enclosure only supports Short Enclosure status: 0x%x\<newline>''
                                 [I (uint r1)]
                          else Printf ''Invalid response, wanted page code: 0x%x but got 0x%x\<newline>''
                                 [I 1, I (uint r0)])],
                         ehp, None)
                      else if resp_len < 4 then (ev @ map Out warn, ehp, None)
                      else (case gen_code_at resp of
                              None \<Rightarrow> (ev @ map Out (warn @ [Read_past_buffer 4]), ehp, None)
                            | Some gen_code \<Rightarrow>
                                (case populate_subencs resp (resp_len - 1) (unat r1 + 1) 0 8 0 of
                                   (ev1, None) \<Rightarrow> (ev @ map Out (warn @ ev1), ehp, None)
                                 | (ev1, Some (ucp, sum_elem_types)) \<Rightarrow>
                                     (case populate_types resp (resp_len - 1) sum_elem_types 0
                                             ucp ehp of
                                        (ev2, ehp', ok) \<Rightarrow>
                                          (ev @ map Out (warn @ ev1 @ ev2), ehp',
                                           if ok then Some (sum_elem_types, gen_code)
                                           else None)))))
              | _ \<Rightarrow> (ev @ [Out (Read_past_buffer 0)], ehp, None))
           else (ev @ [Out (Eprintf ''populate: couldn't read config page\<newline>'' [])], ehp,
                 None),
           fd'))"

section \<open>The dispatcher\<close>

definition hex_dump :: "byte list \<Rightarrow> nat \<Rightarrow> int \<Rightarrow> int \<Rightarrow> printed list" where
  "hex_dump resp off len no_ascii =
     (case dStrHex resp off len no_ascii of
        None \<Rightarrow> [Read_past_buffer off]
      | Some ev \<Rightarrow> [ev])"

text \<open>
  \<open>ses_process_status(sg_fd, page_code, do_raw, do_hex, inner_hex, filter, verbose)\<close>.
  \<open>element_hdr_arr\<close> is the global array of \<open>MX_ELEM_HDR\<close> headers and \<open>resp0\<close> the
  indeterminate content of the local buffer of \<open>populate_element_hdr_arr\<close>. The result is
  the trace of the call and the state of the device after it.
\<close>

definition ses_process_status ::
  "'d sg_io \<Rightarrow> 'd \<Rightarrow> nat \<Rightarrow> bool \<Rightarrow> bool \<Rightarrow> bool \<Rightarrow> bool \<Rightarrow> nat
     \<Rightarrow> element_hdr list \<Rightarrow> byte list \<Rightarrow> event list \<times> 'd" where
  "ses_process_status io sg_fd page_code do_raw do_hex inner_hex filt verbose
       element_hdr_arr resp0 =
     (case do_rcvdiag io sg_fd True page_code (replicate MX_ALLOC_LEN 0) MX_ALLOC_LEN True
             verbose of
        (ev, rc, rsp_buff, fd1) \<Rightarrow>
          (if rc = 0 then
             (case (rd rsp_buff 2, rd rsp_buff 3, rd rsp_buff 0, rd rsp_buff 1) of
                (Some r2, Some r3, Some r0, Some r1) \<Rightarrow>
                  (let rsp_len0 = unat r2 * 256 + unat r3 + 4;
                       warn = (if rsp_len0 > MX_ALLOC_LEN
                               then [Eprintf ''<<< warning response buffer too small [%d but need %d]>>>\<newline>''
                                       [I (int MX_ALLOC_LEN), I (int rsp_len0)]]
                               else []);
                       rsp_len = (if rsp_len0 > MX_ALLOC_LEN then MX_ALLOC_LEN else rsp_len0);
                       cp = find_page_code_desc page_code
                   in if page_code \<noteq> unat r0 then
                        (if r0 = 0x9 \<and> r1 AND 1 \<noteq> 0 then
                           (ev @ map Out (warn @ Eprintf ''Enclosure busy, try again later\<newline>'' [] #
                            (if do_hex then hex_dump rsp_buff 0 (int rsp_len) 0 else [])), fd1)
                         else if r0 = 0x8 then
                           (ev @ map Out (warn @
                            [Eprintf ''Enclosure only supports Short Enclosure status: 0x%x\<newline>''
                               [I (uint r1)]]), fd1)
                         else
                           (ev @ map Out (warn @
                            Eprintf ''Invalid response, wanted page code: 0x%x but got 0x%x\<newline>''
                              [I (int page_code), I (uint r0)] #
                            hex_dump rsp_buff 0 (int rsp_len) 0), fd1))
                      else if do_raw then
                        (ev @ map Out (warn @ hex_dump rsp_buff 4 (int rsp_len - 4) (- 1)), fd1)
                      else if do_hex then
                        (ev @ map Out (warn @
                         (case cp of
                            Some d \<Rightarrow> Printf ''Response in hex from diagnostic page: %s\<newline>'' [S d]
                          | None \<Rightarrow>
                              Printf ''Response in hex from unknown diagnostic page [0x%x]\<newline>''
                                [I (int page_code)]) #
                         hex_dump rsp_buff 0 (int rsp_len) 0), fd1)
                      else if page_code = 0 then
                        (ev @ map Out (warn @
                         ses_supported_pages_sdg ''Supported diagnostic pages'' rsp_buff rsp_len), fd1)
                      else if page_code = 1 then
                        (ev @ map Out (warn @ ses_configuration_sdg rsp_buff rsp_len), fd1)
                      else if page_code = 2 then
                        (case populate_element_hdr_arr io fd1 element_hdr_arr resp0 verbose of
                           ((pev, ehp, None), fd2) \<Rightarrow> (ev @ map Out warn @ pev, fd2)
                         | ((pev, ehp, Some (res, ref_gen_code)), fd2) \<Rightarrow>
                             (ev @ map Out warn @ pev @
                              map Out
                                (ses_enclosure_sdg ehp res ref_gen_code rsp_buff rsp_len inner_hex filt),
                              fd2))
                      else if page_code = 3 then
                        (ev @ map Out (warn @
                         Printf ''Help text diagnostic page (for primary subenclosure):\<newline>'' [] #
                         (if rsp_len > 4
                          then (case str_at rsp_buff 4 (rsp_len - 4) of
                                  None \<Rightarrow> [Read_past_buffer 4]
                                | Some cs \<Rightarrow> [Printf ''  %.*s\<newline>'' [I (int rsp_len - 4), B cs]])
                          else [Printf ''  <empty>\<newline>'' []])), fd1)
                      else if page_code = 4 then
                        (ev @ map Out (warn @
                         Printf ''String In diagnostic page (for primary subenclosure):\<newline>'' [] #
                         (if rsp_len > 4 then hex_dump rsp_buff 4 (int rsp_len - 4) 0
                          else [Printf ''  <empty>\<newline>'' []])), fd1)
                      else if page_code = 5 then
                        (case populate_element_hdr_arr io fd1 element_hdr_arr resp0 verbose of
                           ((pev, ehp, None), fd2) \<Rightarrow> (ev @ map Out warn @ pev, fd2)
                         | ((pev, ehp, Some (res, ref_gen_code)), fd2) \<Rightarrow>
                             (ev @ map Out warn @ pev @
                              map Out
                                (ses_threshold_sdg ehp res ref_gen_code rsp_buff rsp_len inner_hex),
                              fd2))
                      else if page_code = 7 then
                        (case populate_element_hdr_arr io fd1 element_hdr_arr resp0 verbose of
                           ((pev, ehp, None), fd2) \<Rightarrow> (ev @ map Out warn @ pev, fd2)
                         | ((pev, ehp, Some (res, ref_gen_code)), fd2) \<Rightarrow>
                             (ev @ map Out warn @ pev @
                              map Out
                                (ses_element_desc_sdg ehp res ref_gen_code rsp_buff rsp_len),
                              fd2))
                      else if page_code = 8 then
                        (ev @ map Out (warn @
                         [Printf ''Short enclosure status diagnostic page, status=0x%x\<newline>''
                            [I (uint r1)]]), fd1)
                      else if page_code = 9 then
                        (ev @ map Out (warn @
                         [Printf ''Enclosure busy diagnostic page, busy=%d [vendor specific=0x%x]\<newline>''
                            [I (uint (r1 AND 1)), I (uint (drop_bit 1 r1))]]), fd1)
                      else if page_code = 0xa then
                        (case populate_element_hdr_arr io fd1 element_hdr_arr resp0 verbose of
                           ((pev, ehp, None), fd2) \<Rightarrow> (ev @ map Out warn @ pev, fd2)
                         | ((pev, ehp, Some (res, ref_gen_code)), fd2) \<Rightarrow>
                             (ev @ map Out warn @ pev @
                              map Out
                                (ses_device_elem_sdg ehp res ref_gen_code rsp_buff rsp_len),
                              fd2))
                      else if page_code = 0xb then
                        (ev @ map Out (warn @ ses_subenc_help_sdg rsp_buff rsp_len), fd1)
                      else if page_code = 0xc then
                        (ev @ map Out (warn @ ses_subenc_string_sdg rsp_buff rsp_len), fd1)
                      else if page_code = 0xd then
                        (ev @ map Out (warn @
                         ses_supported_pages_sdg ''Supported SES diagnostic pages'' rsp_buff
                           rsp_len), fd1)
                      else
                        (ev @ map Out (warn @
                         Printf ''Cannot decode response from diagnostic page: %s\<newline>''
                           [S (case cp of Some d \<Rightarrow> d | None \<Rightarrow> ''<unknown>'')] #
                         hex_dump rsp_buff 0 (int rsp_len) 0), fd1))
              | _ \<Rightarrow> (ev @ [Out (Read_past_buffer 0)], fd1))
           else (ev @ [Out (Printf ''Attempt to fetch status diagnostic page failed\<newline>'' [])],
                 fd1)))"

section \<open>Reference descriptions\<close>

text \<open>
  The Supported-Pages walk as the specification words it: the page codes are taken in
  order, and the walk stops at the first byte that is less than its predecessor.
\<close>

fun pages_until_descent :: "byte list \<Rightarrow> byte list" where
  "pages_until_descent [] = []"
| "pages_until_descent [c] = [c]"
| "pages_until_descent (c # d # cs) =
     (if d < c then [c] else c # pages_until_descent (d # cs))"

text \<open>The same walk with the predecessor as an argument, as the loop keeps it in \<open>prev\<close>.\<close>

fun asc_from :: "nat \<Rightarrow> byte list \<Rightarrow> byte list" where
  "asc_from prev [] = []"
| "asc_from prev (c # cs) = (if unat c < prev then [] else c # asc_from (unat c) cs)"

text \<open>The line of one supported page: its description from the page-code catalog.\<close>

definition supported_page_line :: "byte \<Rightarrow> printed" where
  "supported_page_line c =
     Printf ''  %s [0x%x]\<newline>''
       [S (case find_page_code_desc (unat c) of Some cp \<Rightarrow> cp | None \<Rightarrow> ''<unknown>''),
        I (uint c)]"

text \<open>
  The lines of one per-phy record of a SAS transport descriptor, for the record that
  starts at offset \<open>off\<close> and with \<open>label\<close> as the number printed in brackets.
\<close>

definition sas_phy_lines :: "byte list \<Rightarrow> int \<Rightarrow> nat \<Rightarrow> printed list" where
  "sas_phy_lines resp label off =
     [Printf ''    [%d] device type: %s\<newline>''
        [I label, S (sas_device_type ! unat (drop_bit 4 (resp ! (off + 4) AND 0x70)))],
      Printf ''      initiator port for: %s %s %s\<newline>''
        [S (if resp ! (off + 6) AND 8 \<noteq> 0 then ''SSP'' else []),
         S (if resp ! (off + 6) AND 4 \<noteq> 0 then ''STP'' else []),
         S (if resp ! (off + 6) AND 2 \<noteq> 0 then ''SMP'' else [])],
      Printf ''      target port for: %s %s %s\<newline>''
        [S (if resp ! (off + 7) AND 8 \<noteq> 0 then ''SSP'' else []),
         S (if resp ! (off + 7) AND 4 \<noteq> 0 then ''STP'' else []),
         S (if resp ! (off + 7) AND 2 \<noteq> 0 then ''SMP'' else [])],
      Printf ''      attached SAS address: '' []]
     @ hex_bytes (take 8 (drop (off + 8) resp))
     @ [Printf ''\<newline>      SAS address: '' []]
     @ hex_bytes (take 8 (drop (off + 16) resp))
     @ [Printf ''\<newline>      phy identifier: 0x%x\<newline>'' [I (uint (resp ! (off + 24)))]]"

text \<open>The command blocks of the \<open>SG_IO\<close> operations of a trace, in the order they were issued.\<close>

fun sg_io_cdbs :: "event list \<Rightarrow> byte list list" where
  "sg_io_cdbs [] = []"
| "sg_io_cdbs (Sg_io cdb # evs) = cdb # sg_io_cdbs evs"
| "sg_io_cdbs (Out out # evs) = sg_io_cdbs evs"

text \<open>
  A device for running the program on concrete pages: its state is the list of the
  answers it still has to give, one per command.
\<close>

definition scripted :: "(sg_io_result list) sg_io" where
  "scripted answers cdb dxfer_len =
     (case answers of
        [] \<Rightarrow> (Ioctl_failed, [])
      | a # rest \<Rightarrow> (a, rest))"

text \<open>The global array \<open>element_hdr_arr\<close> at program start: static storage is zeroed.\<close>

definition element_hdr_arr :: "element_hdr list" where
  "element_hdr_arr =
     replicate MX_ELEM_HDR \<lparr>etype = 0, num_elements = 0, se_id = 0, unused = 0\<rparr>"

text \<open>
  A SAS transport descriptor with two phys: the header 06 3a 02 01 and two records of 28
  bytes, an end device and an edge expander.
\<close>

definition sas_example :: "byte list" where
  "sas_example =
     [0x06, 58, 2, 1,
      0, 0, 0, 0, 0x10, 0, 0x08, 0x02, 0x50, 0, 0, 0, 0, 0, 0, 0xA1,
      0x50, 0, 0, 0, 0, 0, 0, 0xB1, 0, 0, 0, 0,
      0, 0, 0, 0, 0x20, 0, 0x00, 0x0E, 0x50, 0, 0, 0, 0, 0, 0, 0xA2,
      0x50, 0, 0, 0, 0, 0, 0, 0xB1, 1, 0, 0, 0]"

definition is_device_type_line :: "printed \<Rightarrow> bool" where
  "is_device_type_line e =
     (case e of Printf f as \<Rightarrow> f = ''    [%d] device type: %s\<newline>'' | _ \<Rightarrow> False)"

text \<open>Pages for running the decoders. The element map of all of them is one Device type.\<close>

definition device_hdr :: element_hdr where
  "device_hdr = \<lparr>etype = 1, num_elements = 1, se_id = 0, unused = 0\<rparr>"

text \<open>
  An Enclosure status page whose header declares 9 bytes (\<open>resp_len = 13\<close>): the overall
  status of the Device type is at offsets 8 to 11 and the status of its element at
  offsets 12 to 15.
\<close>

definition enclosure_page_short :: "byte list" where
  "enclosure_page_short =
     [0x02, 0x00, 0x00, 0x09, 0x00, 0x00, 0x00, 0x2A,
      0x01, 0x00, 0x00, 0x00,
      0x01, 0x05, 0xA0, 0x12]"

text \<open>
  An Element descriptor page whose header declares 9 bytes: an empty overall descriptor
  at offsets 8 to 11, and the descriptor of the element at offsets 12 to 17, with its
  length field at offsets 14 and 15.
\<close>

definition element_desc_page_short :: "byte list" where
  "element_desc_page_short =
     [0x07, 0x00, 0x00, 0x09, 0x00, 0x00, 0x00, 0x2A,
      0x00, 0x00, 0x00, 0x00,
      0x00, 0x00, 0x00, 0x02, 0x41, 0x42]"

text \<open>
  A Subenclosure help text page whose header declares 9 bytes: one record at offset 8
  with four characters of text at offsets 12 to 15.
\<close>

definition subenc_help_page_short :: "byte list" where
  "subenc_help_page_short =
     [0x0b, 0x00, 0x00, 0x09, 0x00, 0x00, 0x00, 0x2A,
      0x00, 0x00, 0x00, 0x04, 0x41, 0x42, 0x43, 0x44]"

text \<open>
  A Configuration page with generation code 0x2a and one subenclosure descriptor of 40
  bytes that declares two element types: Device with 3 possible elements and Power
  supply with 1. Both type descriptor texts are empty, so the page ends with the last
  type descriptor header: 56 bytes, page length 52.
\<close>

definition config_no_text :: "byte list" where
  "config_no_text =
     [0x01, 0x00, 0x00, 0x34, 0x00, 0x00, 0x00, 0x2A,
      0x11, 0x00, 0x02, 0x24,
      0x50, 0x00, 0x00, 0x00, 0x00, 0x00, 0x00, 0x01,
      0x41, 0x43, 0x4D, 0x45, 0x20, 0x20, 0x20, 0x20,
      0x45, 0x4E, 0x43, 0x4C, 0x4F, 0x53, 0x55, 0x52,
      0x45, 0x20, 0x20, 0x20, 0x20, 0x20, 0x20, 0x20,
      0x30, 0x30, 0x30, 0x31,
      0x01, 0x03, 0x00, 0x00,
      0x02, 0x01, 0x00, 0x00]"

text \<open>
  The same configuration with the type descriptor texts "Device" and "Power supply": 74
  bytes, page length 70.
\<close>

definition config_with_text :: "byte list" where
  "config_with_text =
     [0x01, 0x00, 0x00, 0x46, 0x00, 0x00, 0x00, 0x2A,
      0x11, 0x00, 0x02, 0x24,
      0x50, 0x00, 0x00, 0x00, 0x00, 0x00, 0x00, 0x01,
      0x41, 0x43, 0x4D, 0x45, 0x20, 0x20, 0x20, 0x20,
      0x45, 0x4E, 0x43, 0x4C, 0x4F, 0x53, 0x55, 0x52,
      0x45, 0x20, 0x20, 0x20, 0x20, 0x20, 0x20, 0x20,
      0x30, 0x30, 0x30, 0x31,
      0x01, 0x03, 0x00, 0x06,
      0x02, 0x01, 0x00, 0x0C,
      0x44, 0x65, 0x76, 0x69, 0x63, 0x65,
      0x50, 0x6F, 0x77, 0x65, 0x72, 0x20, 0x73, 0x75, 0x70, 0x70, 0x6C, 0x79]"


text \<open>
  An Enclosure status page and a Threshold In page for the element map of
  \<open>config_with_text\<close>, both with generation code 0x2b, while the configuration carries
  0x2a.
\<close>

definition enclosure_page_stale :: "byte list" where
  "enclosure_page_stale =
     [0x02, 0x00, 0x00, 0x1C, 0x00, 0x00, 0x00, 0x2B,
      0x01, 0x00, 0x00, 0x00,
      0x01, 0x05, 0xA0, 0x12,
      0x01, 0x06, 0x00, 0x00,
      0x05, 0x07, 0x00, 0x00,
      0x01, 0x00, 0x00, 0x00,
      0x01, 0x00, 0x00, 0x20]"

definition threshold_page_stale :: "byte list" where
  "threshold_page_stale =
     [0x05, 0x00, 0x00, 0x1C, 0x00, 0x00, 0x00, 0x2B,
      0x00, 0x00, 0x00, 0x00,
      0x00, 0x00, 0x00, 0x00,
      0x00, 0x00, 0x00, 0x00,
      0x00, 0x00, 0x00, 0x00,
      0x00, 0x00, 0x00, 0x00,
      0x00, 0x00, 0x00, 0x00]"

text \<open>
  An Enclosure status page for the element map of \<open>config_with_text\<close> that carries the
  generation code 0x2a of that configuration.
\<close>

definition enclosure_page_current :: "byte list" where
  "enclosure_page_current =
     [0x02, 0x00, 0x00, 0x1C, 0x00, 0x00, 0x00, 0x2A,
      0x01, 0x00, 0x00, 0x00,
      0x01, 0x05, 0xA0, 0x12,
      0x01, 0x06, 0x00, 0x00,
      0x05, 0x07, 0x00, 0x00,
      0x01, 0x00, 0x00, 0x00,
      0x01, 0x00, 0x00, 0x20]"

section \<open>Properties\<close>

subsection \<open>Supported diagnostic pages\<close>

lemma pages_until_descent_Cons: "pages_until_descent (c # cs) = c # asc_from (unat c) cs"
  by (induction cs arbitrary: c) (auto simp: word_less_nat_alt)

lemma asc_from_0: "asc_from 0 cs = pages_until_descent cs"
  by (cases cs) (auto simp: pages_until_descent_Cons)

lemma ses_supported_pages_loop_eq:
  "resp_len \<le> length resp \<Longrightarrow>
   ses_supported_pages_loop resp resp_len k prev =
     map supported_page_line (asc_from prev (drop k (take (resp_len - 4) (drop 4 resp))))"
proof (induction resp resp_len k prev rule: ses_supported_pages_loop.induct)
  case (1 resp resp_len k prev)
  show ?case
  proof (cases "k < resp_len - 4")
    case False
    then show ?thesis by (simp add: ses_supported_pages_loop.simps [of resp resp_len k prev])
  next
    case True
    then have lt: "k + 4 < length resp" using 1(2) by simp
    have dr: "drop k (take (resp_len - 4) (drop 4 resp)) =
              resp ! (k + 4) # drop (Suc k) (take (resp_len - 4) (drop 4 resp))"
    proof -
      let ?p = "take (resp_len - 4) (drop 4 resp)"
      have len: "k < length ?p" using True 1(2) by simp
      have "?p ! k = resp ! (k + 4)" using True 1(2) by (simp add: add.commute)
      with Cons_nth_drop_Suc [OF len] show ?thesis by simp
    qed
    show ?thesis
      using True lt 1(1) [of "resp ! (k + 4)"] 1(2)
      by (simp add: ses_supported_pages_loop.simps [of resp resp_len k prev] rd_def dr
            supported_page_line_def)
  qed
qed

text \<open>
  C8. The Supported-Pages decoder prints, after its heading, one line per page code of
  the payload (the bytes from offset 4 up to the page length), each resolved through the
  page-code catalog, and stops at the first byte that is less than its predecessor. For
  the payload 00 01 02 00 it stops after 02: the pages printed are 0, 1 and 2.
\<close>

theorem ses_supported_pages_sdg_stops_at_descent:
  "(resp_len \<le> length resp \<longrightarrow>
      ses_supported_pages_sdg leadin resp resp_len =
        Printf ''%s:\<newline>'' [S leadin] #
        map supported_page_line (pages_until_descent (take (resp_len - 4) (drop 4 resp))))
   \<and> ses_supported_pages_sdg leadin [h0, h1, h2, h3, 0x00, 0x01, 0x02, 0x00] 8 =
       [Printf ''%s:\<newline>'' [S leadin],
        Printf ''  %s [0x%x]\<newline>'' [S ''Supported diagnostic pages'', I 0],
        Printf ''  %s [0x%x]\<newline>'' [S ''Configuration (SES)'', I 1],
        Printf ''  %s [0x%x]\<newline>'' [S ''Enclosure status/control (SES)'', I 2]]"
proof (intro conjI impI)
  assume "resp_len \<le> length resp"
  then show "ses_supported_pages_sdg leadin resp resp_len =
        Printf ''%s:\<newline>'' [S leadin] #
        map supported_page_line (pages_until_descent (take (resp_len - 4) (drop 4 resp)))"
    by (simp add: ses_supported_pages_sdg_def ses_supported_pages_loop_eq asc_from_0)
next
  have "ses_supported_pages_sdg leadin [h0, h1, h2, h3, 0x00, 0x01, 0x02, 0x00] 8 =
        Printf ''%s:\<newline>'' [S leadin] #
        map supported_page_line (asc_from 0 [0x00, 0x01, 0x02, 0x00])"
    by (simp add: ses_supported_pages_sdg_def ses_supported_pages_loop_eq)
  then show "ses_supported_pages_sdg leadin [h0, h1, h2, h3, 0x00, 0x01, 0x02, 0x00] 8 =
       [Printf ''%s:\<newline>'' [S leadin],
        Printf ''  %s [0x%x]\<newline>'' [S ''Supported diagnostic pages'', I 0],
        Printf ''  %s [0x%x]\<newline>'' [S ''Configuration (SES)'', I 1],
        Printf ''  %s [0x%x]\<newline>'' [S ''Enclosure status/control (SES)'', I 2]]"
    by (simp add: supported_page_line_def find_page_code_desc_def pc_desc_arr_def)
qed

theorem ses_supported_pages_sdg_stops_at_descent_witness:
  "(9::nat) \<le> length [0x0d, 0, 0, 5, 0x01, 0x02, 0x07, 0x30, 0x05 :: byte]
   \<and> ses_supported_pages_sdg ''Supported SES diagnostic pages''
        [0x0d, 0, 0, 5, 0x01, 0x02, 0x07, 0x30, 0x05] 9 =
       [Printf ''%s:\<newline>'' [S ''Supported SES diagnostic pages''],
        Printf ''  %s [0x%x]\<newline>'' [S ''Configuration (SES)'', I 1],
        Printf ''  %s [0x%x]\<newline>'' [S ''Enclosure status/control (SES)'', I 2],
        Printf ''  %s [0x%x]\<newline>'' [S ''Element descriptor (SES)'', I 7],
        Printf ''  %s [0x%x]\<newline>'' [S ''<unknown>'', I 48]]"
  using ses_supported_pages_sdg_stops_at_descent
          [of 9 "[0x0d, 0, 0, 5, 0x01, 0x02, 0x07, 0x30, 0x05]" "''Supported SES diagnostic pages''"]
  by (simp add: supported_page_line_def find_page_code_desc_def pc_desc_arr_def)

subsection \<open>SAS transport descriptors\<close>

lemma take_drop_rds:
  "a + n \<le> m \<Longrightarrow> take n (drop a (take m (drop off resp))) = take n (drop (off + a) resp)"
  by (simp add: drop_take min_def add.commute)

lemma sas_phy_record_lines:
  "off + 25 \<le> length resp \<Longrightarrow>
   sas_phy_record resp phys off = Some (sas_phy_lines resp (int phys + 1) off)"
  by (simp add: sas_phy_record_def rds_def sas_phy_lines_def take_drop_rds)

lemma sas_phys_closed_form:
  "j \<le> phys \<Longrightarrow> per_ucp + 28 * (phys - j) \<le> length resp + 3 \<Longrightarrow>
   sas_phys resp phys j per_ucp =
     (concat (map (\<lambda>i. sas_phy_lines resp (int phys + 1) (per_ucp + 28 * i)) [0..<phys - j]),
      True)"
proof (induction resp phys j per_ucp rule: sas_phys.induct)
  case (1 resp phys j per_ucp)
  show ?case
  proof (cases "j < phys")
    case False
    then show ?thesis by (simp add: sas_phys.simps [of resp phys j per_ucp])
  next
    case True
    then obtain n where n: "phys - j = Suc n" by (cases "phys - j") auto
    then have n': "phys - Suc j = n" by simp
    have b: "per_ucp + 25 \<le> length resp" using 1(3) n by simp
    have rec: "sas_phy_record resp phys per_ucp = Some (sas_phy_lines resp (int phys + 1) per_ucp)"
      using b by (rule sas_phy_record_lines)
    have "sas_phys resp phys (j + 1) (per_ucp + 28) =
       (concat (map (\<lambda>i. sas_phy_lines resp (int phys + 1) (per_ucp + 28 + 28 * i))
                  [0..<phys - (j + 1)]), True)"
      using True 1(3) n by (intro 1(1) [OF True rec]) simp_all
    then have ih: "sas_phys resp phys (Suc j) (per_ucp + 28) =
       (concat (map (\<lambda>i. sas_phy_lines resp (int phys + 1) (per_ucp + 28 * Suc i)) [0..<n]),
        True)"
      using n' by (simp add: add.assoc)
    have split: "[0..<Suc n] = 0 # map Suc [0..<n]"
      by (simp add: upt_conv_Cons map_Suc_upt del: upt_Suc)
    have "sas_phys resp phys j per_ucp =
            (sas_phy_lines resp (int phys + 1) per_ucp
             @ concat (map (\<lambda>i. sas_phy_lines resp (int phys + 1) (per_ucp + 28 * Suc i))
                         [0..<n]), True)"
      using True by (subst sas_phys.simps) (simp add: rec ih)
    then show ?thesis
      unfolding n split by (simp add: comp_def)
  qed
qed

text \<open>
  C9. For a SAS transport descriptor at \<open>ucp\<close> (protocol identifier 6) with phy count
  \<open>n \<ge> 1\<close> whose records lie inside the buffer, \<open>ses_transport_proto\<close> prints the two
  heading lines and then, for every \<open>j < n\<close>, the lines of the record at offset
  \<open>ucp + 4 + 28 * j\<close>: the cursor advances by 28 bytes per record, and the number printed
  in brackets is \<open>n + 1\<close> for every record, whatever \<open>j\<close> is.
\<close>

theorem ses_transport_proto_sas_label_is_count_plus_one:
  assumes "1 \<le> n"
    and "ucp + 4 + 28 * n \<le> length resp + 3"
    and "resp ! ucp AND 0xf = 6"
    and "unat (resp ! (ucp + 2)) = n"
  shows "ses_transport_proto resp ucp len elem_num =
           ([Printf ''   [%d] Transport protocol: SAS, number of phys: %d\<newline>''
               [I (int elem_num + 1), I (int n)],
             Printf ''    not all phys: %d\<newline>'' [I (uint (resp ! (ucp + 3) AND 1))]]
            @ concat (map (\<lambda>j. sas_phy_lines resp (int n + 1) (ucp + 4 + 28 * j)) [0..<n]),
            True)"
proof -
  define phys where "phys = resp ! (ucp + 2)"
  have n: "n = unat phys" using assms(4) by (simp add: phys_def)
  have inb: "ucp + 3 < length resp" using assms(1,2) by simp
  have r0: "rd resp ucp = Some (resp ! ucp)"
    and r2: "rd resp (Suc (Suc ucp)) = Some phys"
    and r3: "rd resp (ucp + 3) = Some (resp ! (ucp + 3))"
    using inb by (simp_all add: rd_def phys_def)
  have loop: "sas_phys resp (unat phys) 0 (ucp + 4) =
     (concat (map (\<lambda>j. sas_phy_lines resp (int (unat phys) + 1) (ucp + 4 + 28 * j))
                [0..<unat phys]), True)"
    using sas_phys_closed_form [of 0 "unat phys" "ucp + 4" resp] assms(2) n by simp
  have six: "(6 :: byte) \<noteq> 0" by simp
  have "ses_transport_proto resp ucp len elem_num =
           ([Printf ''   [%d] Transport protocol: SAS, number of phys: %d\<newline>''
               [I (int elem_num + 1), I (uint phys)],
             Printf ''    not all phys: %d\<newline>'' [I (uint (resp ! (ucp + 3) AND 1))]]
            @ concat (map (\<lambda>j. sas_phy_lines resp (int (unat phys) + 1) (ucp + 4 + 28 * j))
                        [0..<unat phys]),
            True)"
    using six by (simp add: ses_transport_proto_def r0 r2 r3 loop assms(3))
  then show ?thesis
    unfolding n by simp
qed

theorem ses_transport_proto_sas_label_is_count_plus_one_witness:
  "(1::nat) \<le> 2
   \<and> (0::nat) + 4 + 28 * 2 \<le> length sas_example + 3
   \<and> sas_example ! 0 AND 0xf = 6
   \<and> unat (sas_example ! (0 + 2)) = 2
   \<and> filter is_device_type_line (fst (ses_transport_proto sas_example 0 60 0)) =
       [Printf ''    [%d] device type: %s\<newline>'' [I 3, S ''end device''],
        Printf ''    [%d] device type: %s\<newline>'' [I 3, S ''edge expander device'']]"
proof -
  have h1: "(1::nat) \<le> 2" by simp
  have h2: "(0::nat) + 4 + 28 * 2 \<le> length sas_example + 3" by (simp add: sas_example_def)
  have h3: "sas_example ! 0 AND 0xf = 6" by (simp add: sas_example_def)
  have h4: "unat (sas_example ! (0 + 2)) = 2" by (simp add: sas_example_def)
  have two: "[0..<2::nat] = [0, 1]" by code_simp
  have "filter is_device_type_line (fst (ses_transport_proto sas_example 0 60 0)) =
       [Printf ''    [%d] device type: %s\<newline>'' [I 3, S ''end device''],
        Printf ''    [%d] device type: %s\<newline>'' [I 3, S ''edge expander device'']]"
    unfolding ses_transport_proto_sas_label_is_count_plus_one [OF h1 h2 h3 h4, of 60 0] two
    by (simp add: sas_phy_lines_def hex_bytes_def sas_device_type_def is_device_type_line_def
          sas_example_def)
  with h1 h2 h3 h4 show ?thesis by blast
qed

subsection \<open>Device status records\<close>

lemma print_over_elem_status_reaches_end:
  "run_stmts (print_over_elem_status_stmts pad (Some s0, Some s1, Some s2, Some s3) et filt) =
     (print_over_elem_status pad (s0, s1, s2, s3) et filt, True)"
  by (simp add: print_over_elem_status_def prod_eq_iff print_over_elem_status_stmts_def
        stmt1_def stmt2_def stmt3_def stmt4_def)

text \<open>
  C6, as the specification states it, does not hold: for the Device status record
  01 05 a0 12 the first three lines are not status "Critical" with Enc bypassed A=0.
\<close>

theorem device_status_record_counterexample:
  "take 3 (print_over_elem_status ''     '' (0x01, 0x05, 0xA0, 0x12) 1 False) \<noteq>
     [Printf ''%sPredicted failure=%d, swap=%d, status: %s\<newline>''
        [S ''     '', I 0, I 0, S ''Critical''],
      Printf ''%sSlot address: %d\<newline>'' [S ''     '', I 5],
      Printf ''%sApp client bypassed A=%d, Do not remove=%d, Enc bypassed A=%d\<newline>''
        [S ''     '', I 1, I 0, I 0]]"
  by (simp add: print_over_elem_status_def print_over_elem_status_stmts_def stmt1_def stmt2_def
        nz_def element_status_desc_def)

text \<open>
  C6, amended. The Device status record 01 05 a0 12 decodes to status "OK" (the entry 1
  of the status table, byte 0 bits 0 to 3), Predicted failure=0 (byte 0 bit 6), Slot
  address 5 (byte 1), App client bypassed A=1 (byte 2 bit 7) and Enc bypassed A=1 (byte 2
  bit 5).
\<close>

theorem device_status_record_decoding:
  "print_over_elem_status pad (0x01, 0x05, 0xA0, 0x12) 1 False =
     [Printf ''%sPredicted failure=%d, swap=%d, status: %s\<newline>''
        [S pad, I 0, I 0, S ''OK''],
      Printf ''%sSlot address: %d\<newline>'' [S pad, I 5],
      Printf ''%sApp client bypassed A=%d, Do not remove=%d, Enc bypassed A=%d\<newline>''
        [S pad, I 1, I 0, I 1],
      Printf ''%sEnc bypassed B=%d, Ready to insert=%d, RMV=%d, Ident=%d\<newline>''
        [S pad, I 0, I 0, I 0, I 0],
      Printf ''%sReport=%d, App client bypassed B=%d, Fault sensed=%d, Fault requested=%d\<newline>''
        [S pad, I 0, I 0, I 0, I 0],
      Printf ''%sDevice off=%d, Bypassed A=%d, Bypassed B=%d, Device bypassed A=%d\<newline>''
        [S pad, I 1, I 0, I 0, I 1],
      Printf ''%sDevice bypassed B=%d\<newline>'' [S pad, I 0]]"
  by (simp add: print_over_elem_status_def print_over_elem_status_stmts_def stmt1_def stmt2_def
        nz_def element_status_desc_def)

theorem device_status_record_decoding_witness:
  "take 3 (print_over_elem_status ''       '' (0x01, 0x05, 0xA0, 0x12) 1 False) =
     [Printf ''%sPredicted failure=%d, swap=%d, status: %s\<newline>''
        [S ''       '', I 0, I 0, S ''OK''],
      Printf ''%sSlot address: %d\<newline>'' [S ''       '', I 5],
      Printf ''%sApp client bypassed A=%d, Do not remove=%d, Enc bypassed A=%d\<newline>''
        [S ''       '', I 1, I 0, I 1]]"
  using device_status_record_decoding [of "''       ''"] by simp

subsection \<open>UPS thresholds\<close>

lemma ses_threshold_helper_reaches_end:
  "run_stmts (ses_threshold_helper_stmts pad (Some t0, Some t1, Some t2, Some t3) et p_num
                inner_hex) = (ls, reached) \<Longrightarrow>
   reached \<and> ses_threshold_helper pad (Some (t0, t1, t2, t3)) et p_num inner_hex = Some ls"
  by (auto simp: ses_threshold_helper_def ses_threshold_helper_stmts_def Let_def
        stmt1_def stmt2_def stmt3_def stmt4_def split: if_splits)

text \<open>
  C7, as the specification states it, does not hold. With byte 0 equal to 0 and bytes 2
  and 3 nonzero the two thresholds are printed as numbers; with byte 0 nonzero and bytes
  2 and 3 equal to 0 both are printed as the marker.
\<close>

theorem ups_threshold_byte0_counterexample:
  "ses_threshold_helper ''    '' (Some (0, 0, 5, 7)) 0xb (- 1) False =
     Some [Printf ''%s%s: low warning=%s, ''
             [S ''    '', S ''Overall threshold'', F ''%d'' [I 5]],
           Printf ''low critical=%s (in minutes)\<newline>'' [F ''%d'' [I 7]]]
   \<and> ses_threshold_helper ''    '' (Some (9, 0, 0, 0)) 0xb (- 1) False =
     Some [Printf ''%s%s: low warning=%s, ''
             [S ''    '', S ''Overall threshold'', S ''<vendor>''],
           Printf ''low critical=%s (in minutes)\<newline>'' [S ''<vendor>'']]"
  by (simp add: ses_threshold_helper_def ses_threshold_helper_stmts_def stmt1_def)

text \<open>
  C7, amended. For a UPS threshold record the sentinels are byte 2 (low warning) and
  byte 3 (low critical): each one is printed as the marker "<vendor>" when it is 0 and as
  its number otherwise. Bytes 0 and 1 have no influence on what is printed.
\<close>

theorem ups_threshold_sentinels:
  "ses_threshold_helper pad (Some (t0, t1, t2, t3)) 0xb p_num False =
     Some [Printf ''%s%s: low warning=%s, ''
             [S pad,
              (if p_num < 0 then S ''Overall threshold''
               else F ''Element %d threshold'' [I (p_num + 1)]),
              (if t2 = 0 then S ''<vendor>'' else F ''%d'' [I (uint t2)])],
           Printf ''low critical=%s (in minutes)\<newline>''
             [(if t3 = 0 then S ''<vendor>'' else F ''%d'' [I (uint t3)])]]
   \<and> ses_threshold_helper pad (Some (t0, t1, t2, t3)) 0xb p_num False =
       ses_threshold_helper pad (Some (t0', t1', t2, t3)) 0xb p_num False"
  by (simp add: ses_threshold_helper_def ses_threshold_helper_stmts_def stmt1_def)

theorem ups_threshold_sentinels_witness:
  "ses_threshold_helper ''      '' (Some (0, 0, 0, 30)) 0xb 2 False =
     Some [Printf ''%s%s: low warning=%s, ''
             [S ''      '', F ''Element %d threshold'' [I 3], S ''<vendor>''],
           Printf ''low critical=%s (in minutes)\<newline>'' [F ''%d'' [I 30]]]"
  using ups_threshold_sentinels [of "''      ''" 0 0 0 30 2] by simp

subsection \<open>Evaluation on concrete pages\<close>

lemma str_at_numeral:
  "str_at resp off (numeral k) =
     (if off < length resp
      then (if resp ! off = 0 then Some []
            else (case str_at resp (Suc off) (pred_numeral k) of
                    None \<Rightarrow> None
                  | Some cs \<Rightarrow> Some (resp ! off # cs)))
      else None)"
  by (simp add: numeral_eq_Suc)

lemma rd_padded:
  "rd (xs @ replicate n 0) i =
     (if i < length xs then Some (xs ! i) else if i < length xs + n then Some 0 else None)"
  by (simp add: rd_def nth_append)

lemma gen_code_at_padded:
  "8 \<le> length xs \<Longrightarrow>
   gen_code_at (xs @ replicate n 0) = Some (be32 (xs ! 4) (xs ! 5) (xs ! 6) (xs ! 7))"
  by (simp add: gen_code_at_def nth_append)

subsection \<open>Reads past the declared length\<close>

text \<open>
  A record that the end of the buffer cuts: of the Device element status at offsets 12
  to 15 only the first two bytes are in the buffer. The decoder prints the lines that it
  computes from these two bytes, and the next statement reads byte 2 of the record.
\<close>

lemma ses_enclosure_elems_record_cut_by_buffer:
  "ses_enclosure_elems (take 14 enclosure_page_short) device_hdr False False 0 12 =
     ([Printf ''      Element %d status:\<newline>'' [I 1],
       Printf ''%sPredicted failure=%d, swap=%d, status: %s\<newline>''
         [S ''       '', I 0, I 0, S ''OK''],
       Printf ''%sSlot address: %d\<newline>'' [S ''       '', I 5],
       Read_past_buffer 12],
      None)"
  by (simp add: ses_enclosure_elems.simps device_hdr_def statp_at_def rd_def
        enclosure_page_short_def print_over_elem_status_stmts_def stmt1_def stmt2_def
        nz_def element_status_desc_def)

text \<open>
  C3, evaluated at the failing inputs. With \<open>resp_len = 4\<close> the Configuration decoder
  prints the generation code 0xdeadbeef, which it reads from offsets 4 to 7. With
  \<open>resp_len = 13\<close> the Enclosure status decoder prints the status of element 1 from
  offsets 12 to 15; when the buffer itself ends at offset 13, that read is outside the
  buffer.
\<close>

theorem decoders_use_bytes_past_declared_length:
  "ses_configuration_sdg [0x01, 0x00, 0x00, 0x00, 0xDE, 0xAD, 0xBE, 0xEF] 4 =
     [Printf ''Configuration diagnostic page:\<newline>'' [],
      Printf ''  number of subenclosures (other than primary): %d\<newline>'' [I 0],
      Printf ''  generation code: 0x%x\<newline>'' [I 0xDEADBEEF],
      Eprintf ''    <<<response too short>>>\<newline>'' []]
   \<and> ses_enclosure_sdg [device_hdr] 1 0x2A enclosure_page_short 13 True False =
     [Printf ''Enclosure status diagnostic page:\<newline>'' [],
      Printf ''  INVOP=%d, INFO=%d, NON-CRIT=%d, CRIT=%d, UNRECOV=%d\<newline>''
        [I 0, I 0, I 0, I 0, I 0],
      Printf ''  generation code: 0x%x\<newline>'' [I 0x2A],
      Printf ''    Element type: %s, subenclosure id: %d\<newline>'' [S ''Device'', I 0],
      Printf ''    Overall status(hex): %02x %02x %02x %02x\<newline>'' [I 1, I 0, I 0, I 0],
      Printf ''      Element %d status(hex): %02x %02x %02x %02x\<newline>''
        [I 1, I 0x01, I 0x05, I 0xA0, I 0x12]]
   \<and> ses_enclosure_sdg [device_hdr] 1 0x2A (take 13 enclosure_page_short) 13 True False =
     [Printf ''Enclosure status diagnostic page:\<newline>'' [],
      Printf ''  INVOP=%d, INFO=%d, NON-CRIT=%d, CRIT=%d, UNRECOV=%d\<newline>''
        [I 0, I 0, I 0, I 0, I 0],
      Printf ''  generation code: 0x%x\<newline>'' [I 0x2A],
      Printf ''    Element type: %s, subenclosure id: %d\<newline>'' [S ''Device'', I 0],
      Printf ''    Overall status(hex): %02x %02x %02x %02x\<newline>'' [I 1, I 0, I 0, I 0],
      Read_past_buffer 12]"
proof (intro conjI)
  show "ses_configuration_sdg [0x01, 0x00, 0x00, 0x00, 0xDE, 0xAD, 0xBE, 0xEF] 4 =
     [Printf ''Configuration diagnostic page:\<newline>'' [],
      Printf ''  number of subenclosures (other than primary): %d\<newline>'' [I 0],
      Printf ''  generation code: 0x%x\<newline>'' [I 0xDEADBEEF],
      Eprintf ''    <<<response too short>>>\<newline>'' []]"
    by (simp add: ses_configuration_sdg_def rd_def gen_code_at_def be32_def
          ses_configuration_subencs.simps truncated_def)
next
  show "ses_enclosure_sdg [device_hdr] 1 0x2A enclosure_page_short 13 True False =
     [Printf ''Enclosure status diagnostic page:\<newline>'' [],
      Printf ''  INVOP=%d, INFO=%d, NON-CRIT=%d, CRIT=%d, UNRECOV=%d\<newline>''
        [I 0, I 0, I 0, I 0, I 0],
      Printf ''  generation code: 0x%x\<newline>'' [I 0x2A],
      Printf ''    Element type: %s, subenclosure id: %d\<newline>'' [S ''Device'', I 0],
      Printf ''    Overall status(hex): %02x %02x %02x %02x\<newline>'' [I 1, I 0, I 0, I 0],
      Printf ''      Element %d status(hex): %02x %02x %02x %02x\<newline>''
        [I 1, I 0x01, I 0x05, I 0xA0, I 0x12]]"
    by (simp add: ses_enclosure_sdg_def enclosure_page_short_def device_hdr_def rd_def
          gen_code_at_def be32_def nz_def ses_enclosure_types.simps ses_enclosure_elems.simps
          hdr_at_def rd4_def element_type_line_def find_element_desc_def element_desc_arr_def)
next
  show "ses_enclosure_sdg [device_hdr] 1 0x2A (take 13 enclosure_page_short) 13 True False =
     [Printf ''Enclosure status diagnostic page:\<newline>'' [],
      Printf ''  INVOP=%d, INFO=%d, NON-CRIT=%d, CRIT=%d, UNRECOV=%d\<newline>''
        [I 0, I 0, I 0, I 0, I 0],
      Printf ''  generation code: 0x%x\<newline>'' [I 0x2A],
      Printf ''    Element type: %s, subenclosure id: %d\<newline>'' [S ''Device'', I 0],
      Printf ''    Overall status(hex): %02x %02x %02x %02x\<newline>'' [I 1, I 0, I 0, I 0],
      Read_past_buffer 12]"
    by (simp add: ses_enclosure_sdg_def enclosure_page_short_def device_hdr_def rd_def
          gen_code_at_def be32_def nz_def ses_enclosure_types.simps ses_enclosure_elems.simps
          hdr_at_def rd4_def element_type_line_def find_element_desc_def element_desc_arr_def)
qed

text \<open>
  C4, evaluated at the failing inputs. With \<open>resp_len = 13\<close> the Element descriptor
  decoder reads the length field of the element's descriptor at offsets 14 and 15 and
  its text at offsets 16 and 17 without comparing the cursor with the length; when the
  buffer ends at offset 13 these reads are outside the buffer. The Subenclosure help text
  decoder prints the four characters at offsets 12 to 15.
\<close>

theorem variable_walks_read_unchecked:
  "ses_element_desc_sdg [device_hdr] 1 0x2A element_desc_page_short 13 =
     [Printf ''Element descriptor In diagnostic page:\<newline>'' [],
      Printf ''  generation code: 0x%x\<newline>'' [I 0x2A],
      Printf ''    Element type: %s, subenclosure id: %d\<newline>'' [S ''Device'', I 0],
      Printf ''    Overall descriptor: <empty>\<newline>'' [],
      Printf ''      Element %d descriptor: %.*s\<newline>'' [I 1, I 2, B [0x41, 0x42]]]
   \<and> ses_element_desc_sdg [device_hdr] 1 0x2A (take 13 element_desc_page_short) 13 =
     [Printf ''Element descriptor In diagnostic page:\<newline>'' [],
      Printf ''  generation code: 0x%x\<newline>'' [I 0x2A],
      Printf ''    Element type: %s, subenclosure id: %d\<newline>'' [S ''Device'', I 0],
      Printf ''    Overall descriptor: <empty>\<newline>'' [],
      Read_past_buffer 12]
   \<and> ses_subenc_help_sdg subenc_help_page_short 13 =
     [Printf ''Subenclosure help text diagnostic page:\<newline>'' [],
      Printf ''  number of subenclosures (other than primary): %d\<newline>'' [I 0],
      Printf ''  generation code: 0x%x\<newline>'' [I 0x2A],
      Printf ''   subenclosure identifier: %d\<newline>'' [I 0],
      Printf ''    %.*s\<newline>'' [I 4, B [0x41, 0x42, 0x43, 0x44]]]"
proof (intro conjI)
  show "ses_element_desc_sdg [device_hdr] 1 0x2A element_desc_page_short 13 =
     [Printf ''Element descriptor In diagnostic page:\<newline>'' [],
      Printf ''  generation code: 0x%x\<newline>'' [I 0x2A],
      Printf ''    Element type: %s, subenclosure id: %d\<newline>'' [S ''Device'', I 0],
      Printf ''    Overall descriptor: <empty>\<newline>'' [],
      Printf ''      Element %d descriptor: %.*s\<newline>'' [I 1, I 2, B [0x41, 0x42]]]"
    by (simp add: ses_element_desc_sdg_def element_desc_page_short_def device_hdr_def rd_def
          gen_code_at_def be32_def ses_element_desc_types.simps ses_element_desc_elems.simps
          hdr_at_def element_descriptor_def element_type_line_def find_element_desc_def
          element_desc_arr_def str_at_numeral)
next
  show "ses_element_desc_sdg [device_hdr] 1 0x2A (take 13 element_desc_page_short) 13 =
     [Printf ''Element descriptor In diagnostic page:\<newline>'' [],
      Printf ''  generation code: 0x%x\<newline>'' [I 0x2A],
      Printf ''    Element type: %s, subenclosure id: %d\<newline>'' [S ''Device'', I 0],
      Printf ''    Overall descriptor: <empty>\<newline>'' [],
      Read_past_buffer 12]"
    by (simp add: ses_element_desc_sdg_def element_desc_page_short_def device_hdr_def rd_def
          gen_code_at_def be32_def ses_element_desc_types.simps ses_element_desc_elems.simps
          hdr_at_def element_descriptor_def element_type_line_def find_element_desc_def
          element_desc_arr_def str_at_numeral)
next
  show "ses_subenc_help_sdg subenc_help_page_short 13 =
     [Printf ''Subenclosure help text diagnostic page:\<newline>'' [],
      Printf ''  number of subenclosures (other than primary): %d\<newline>'' [I 0],
      Printf ''  generation code: 0x%x\<newline>'' [I 0x2A],
      Printf ''   subenclosure identifier: %d\<newline>'' [I 0],
      Printf ''    %.*s\<newline>'' [I 4, B [0x41, 0x42, 0x43, 0x44]]]"
    by (simp add: ses_subenc_help_sdg_def subenc_help_page_short_def rd_def
          gen_code_at_def be32_def ses_subenc_help_loop.simps str_at_numeral)
qed

subsection \<open>Building the element map from concrete Configuration pages\<close>

lemma length_config_no_text: "length config_no_text = 56"
  by (simp add: config_no_text_def)

lemma length_config_with_text: "length config_with_text = 74"
  by (simp add: config_with_text_def)


lemma do_rcvdiag_scripted:
  "length data \<le> MX_ALLOC_LEN \<Longrightarrow>
   do_rcvdiag scripted (Ioctl_done SG_LIB_CAT_CLEAN data # answers) True pg_code
       (replicate MX_ALLOC_LEN 0) MX_ALLOC_LEN True 0 =
     ([Sg_io (rcvdiagCmdBlk True pg_code MX_ALLOC_LEN)], 0,
      data @ replicate (MX_ALLOC_LEN - length data) 0, answers)"
  by (simp add: do_rcvdiag_def scripted_def)

lemma rcvdiagCmdBlk_values:
  "rcvdiagCmdBlk True 1 MX_ALLOC_LEN = [0x1c, 1, 1, 0x10, 0, 0]"
  "rcvdiagCmdBlk True (Suc 0) MX_ALLOC_LEN = [0x1c, 1, 1, 0x10, 0, 0]"
  "rcvdiagCmdBlk True 2 MX_ALLOC_LEN = [0x1c, 1, 2, 0x10, 0, 0]"
  "rcvdiagCmdBlk True 5 MX_ALLOC_LEN = [0x1c, 1, 5, 0x10, 0, 0]"
  by (simp_all add: rcvdiagCmdBlk_def MX_ALLOC_LEN_def)

lemma populate_subencs_config_no_text:
  "populate_subencs (config_no_text @ replicate 4040 0) 55 (Suc 0) 0 8 0 = ([], Some (48, 2))"
  by (simp add: populate_subencs.simps rd_padded length_config_no_text)
     (simp add: config_no_text_def)

lemma populate_types_config_no_text:
  "populate_types (config_no_text @ replicate 4040 0) 55 2 0 48 element_hdr_arr =
    ([Eprintf ''populate: config too short\<newline>'' []],
     element_hdr_arr[0 := \<lparr>etype = 1, num_elements = 3, se_id = 0, unused = 0\<rparr>], False)"
  by (simp add: populate_types.simps rd_padded length_config_no_text MX_ELEM_HDR_def
        element_hdr_arr_def)
     (simp add: config_no_text_def)

lemma header_config_no_text:
  "rd (config_no_text @ replicate 4040 0) 0 = Some 1"
  "rd (config_no_text @ replicate 4040 0) (Suc 0) = Some 0"
  "rd (config_no_text @ replicate 4040 0) 2 = Some 0"
  "rd (config_no_text @ replicate 4040 0) 3 = Some 0x34"
  "gen_code_at (config_no_text @ replicate 4040 0) = Some 0x2A"
  by (simp_all add: rd_padded gen_code_at_padded length_config_no_text)
     (simp_all add: config_no_text_def be32_def)

text \<open>
  C5, evaluated at the failing input. The Configuration page \<open>config_no_text\<close> declares
  one subenclosure with the element types Device (3 possible elements) and Power supply
  (1 possible element), and ends with the header of the second type. The parser stores
  the Device header, then takes the second header for truncated: it reports "config too
  short" and returns -1, and no header list and no generation code reach the caller.
\<close>

theorem populate_rejects_configuration_without_text:
  "populate_element_hdr_arr scripted [Ioctl_done SG_LIB_CAT_CLEAN config_no_text]
       element_hdr_arr (replicate MX_ALLOC_LEN 0) 0 =
     (([Sg_io [0x1c, 1, 1, 0x10, 0, 0],
        Out (Eprintf ''populate: config too short\<newline>'' [])],
       element_hdr_arr[0 := \<lparr>etype = 1, num_elements = 3, se_id = 0, unused = 0\<rparr>],
       None),
      [])"
proof -
  have rcv: "do_rcvdiag scripted [Ioctl_done SG_LIB_CAT_CLEAN config_no_text] True 1
       (replicate MX_ALLOC_LEN 0) MX_ALLOC_LEN True 0 =
     ([Sg_io [0x1c, 1, 1, 0x10, 0, 0]], 0, config_no_text @ replicate 4040 0, [])"
    using do_rcvdiag_scripted [of config_no_text "[]" 1]
    by (simp add: length_config_no_text rcvdiagCmdBlk_def MX_ALLOC_LEN_def)
  show ?thesis
    unfolding populate_element_hdr_arr_def rcv
    by (simp add: header_config_no_text populate_subencs_config_no_text
          populate_types_config_no_text MX_ALLOC_LEN_def)
qed

text \<open>
  With the type descriptor texts in place the same configuration is accepted: the
  headers are (Device, 3, 0) and (Power supply, 1, 0), in the order of the page, and the
  generation code is the big-endian number at offset 4.
\<close>

lemma populate_subencs_config_with_text:
  "populate_subencs (config_with_text @ replicate 4022 0) 73 (Suc 0) 0 8 0 = ([], Some (48, 2))"
  by (simp add: populate_subencs.simps rd_padded length_config_with_text)
     (simp add: config_with_text_def)

lemma populate_types_config_with_text:
  "populate_types (config_with_text @ replicate 4022 0) 73 2 0 48 element_hdr_arr =
    ([],
     element_hdr_arr
       [0 := \<lparr>etype = 1, num_elements = 3, se_id = 0, unused = 0\<rparr>,
        1 := \<lparr>etype = 2, num_elements = 1, se_id = 0, unused = 0\<rparr>], True)"
  by (simp add: populate_types.simps rd_padded length_config_with_text MX_ELEM_HDR_def
        element_hdr_arr_def)
     (simp add: config_with_text_def)

lemma header_config_with_text:
  "rd (config_with_text @ replicate 4022 0) 0 = Some 1"
  "rd (config_with_text @ replicate 4022 0) (Suc 0) = Some 0"
  "rd (config_with_text @ replicate 4022 0) 2 = Some 0"
  "rd (config_with_text @ replicate 4022 0) 3 = Some 0x46"
  "gen_code_at (config_with_text @ replicate 4022 0) = Some 0x2A"
  by (simp_all add: rd_padded gen_code_at_padded length_config_with_text)
     (simp_all add: config_with_text_def be32_def)

lemma populate_config_with_text:
  "populate_element_hdr_arr scripted (Ioctl_done SG_LIB_CAT_CLEAN config_with_text # answers)
       element_hdr_arr (replicate MX_ALLOC_LEN 0) 0 =
     (([Sg_io [0x1c, 1, 1, 0x10, 0, 0]],
       element_hdr_arr
         [0 := \<lparr>etype = 1, num_elements = 3, se_id = 0, unused = 0\<rparr>,
          1 := \<lparr>etype = 2, num_elements = 1, se_id = 0, unused = 0\<rparr>],
       Some (2, 0x2A)),
      answers)"
proof -
  have rcv: "do_rcvdiag scripted (Ioctl_done SG_LIB_CAT_CLEAN config_with_text # answers) True 1
       (replicate MX_ALLOC_LEN 0) MX_ALLOC_LEN True 0 =
     ([Sg_io [0x1c, 1, 1, 0x10, 0, 0]], 0, config_with_text @ replicate 4022 0, answers)"
    using do_rcvdiag_scripted [of config_with_text answers 1]
    by (simp add: length_config_with_text rcvdiagCmdBlk_def MX_ALLOC_LEN_def)
  show ?thesis
    unfolding populate_element_hdr_arr_def rcv
    by (simp add: header_config_with_text populate_subencs_config_with_text
          populate_types_config_with_text MX_ALLOC_LEN_def)
qed

subsection \<open>The generation check of the dispatcher\<close>

lemma length_do_rcvdiag:
  "do_rcvdiag io fd pcv pg_code resp mx_resp_len noisy verbose = (ev, rc, resp', fd') \<Longrightarrow>
   mx_resp_len \<le> length resp \<Longrightarrow> length resp' = length resp"
  by (auto simp: do_rcvdiag_def Let_def split: prod.splits sg_io_result.splits sg_lib_cat.splits)

lemma rd_in_range: "i < length resp \<Longrightarrow> rd resp i = Some (resp ! i)"
  by (simp add: rd_def)

text \<open>
  C1. Take a request for one of the pages 0x02, 0x05, 0x07 and 0x0a without raw or hex
  output. The target page has been received with the requested page code, it is long
  enough to carry a generation code (its declared length covers offsets 4 to 7; the
  Device element status decoder does not ask for that), the element map has been built
  with generation code \<open>ref_gen_code\<close>, and the generation code of the target page is a
  different one. Then the trace of the request is: the receive of the target page, the
  trace of building the element map, the heading of the page, its generation code and
  the message "state of enclosure changed, please try again". Nothing follows: no
  element type and no overall or individual record is printed.
\<close>

theorem generation_mismatch_reports_stale:
  assumes pc: "page_code \<in> {2, 5, 7, 0xa}"
    and mode: "\<not> do_raw" "\<not> do_hex"
    and rcv: "do_rcvdiag io sg_fd True page_code (replicate MX_ALLOC_LEN 0) MX_ALLOC_LEN True
                verbose = (ev, 0, rsp_buff, fd1)"
    and page: "unat (rsp_buff ! 0) = page_code"
    and carries: "page_code \<noteq> 0xa \<longrightarrow> 4 \<le> unat (rsp_buff ! 2) * 256 + unat (rsp_buff ! 3)"
    and pop: "populate_element_hdr_arr io fd1 ehp0 resp0 verbose =
                ((pev, ehp, Some (res, ref_gen_code)), fd2)"
    and mismatch: "be32 (rsp_buff ! 4) (rsp_buff ! 5) (rsp_buff ! 6) (rsp_buff ! 7) \<noteq> ref_gen_code"
  shows "ses_process_status io sg_fd page_code do_raw do_hex inner_hex filt verbose ehp0 resp0 =
     (ev
      @ map Out
          (if unat (rsp_buff ! 2) * 256 + unat (rsp_buff ! 3) + 4 > MX_ALLOC_LEN
           then [Eprintf ''<<< warning response buffer too small [%d but need %d]>>>\<newline>''
                   [I (int MX_ALLOC_LEN),
                    I (int (unat (rsp_buff ! 2) * 256 + unat (rsp_buff ! 3) + 4))]]
           else [])
      @ pev
      @ map Out
          ((if page_code = 2 then
              [Printf ''Enclosure status diagnostic page:\<newline>'' [],
               Printf ''  INVOP=%d, INFO=%d, NON-CRIT=%d, CRIT=%d, UNRECOV=%d\<newline>''
                 [I (nz (rsp_buff ! 1) 0x10), I (nz (rsp_buff ! 1) 0x8),
                  I (nz (rsp_buff ! 1) 0x4), I (nz (rsp_buff ! 1) 0x2),
                  I (nz (rsp_buff ! 1) 0x1)]]
            else if page_code = 5 then
              [Printf ''Threshold In diagnostic page:\<newline>'' [],
               Printf ''  INVOP=%d\<newline>'' [I (nz (rsp_buff ! 1) 0x10)]]
            else if page_code = 7 then
              [Printf ''Element descriptor In diagnostic page:\<newline>'' []]
            else
              [Printf ''Device element status diagnostic page:\<newline>'' []])
           @ [Printf ''  generation code: 0x%x\<newline>''
                [I (uint (be32 (rsp_buff ! 4) (rsp_buff ! 5) (rsp_buff ! 6) (rsp_buff ! 7)))],
              Eprintf ''  <<state of enclosure changed, please try again>>\<newline>'' []]),
      fd2)"
proof -
  have len: "length rsp_buff = MX_ALLOC_LEN"
    using length_do_rcvdiag [OF rcv] by simp
  have reads: "rd rsp_buff 0 = Some (rsp_buff ! 0)" "rd rsp_buff (Suc 0) = Some (rsp_buff ! 1)"
    "rd rsp_buff 2 = Some (rsp_buff ! 2)" "rd rsp_buff 3 = Some (rsp_buff ! 3)"
    using len by (simp_all add: rd_in_range MX_ALLOC_LEN_def)
  have gen: "gen_code_at rsp_buff =
               Some (be32 (rsp_buff ! 4) (rsp_buff ! 5) (rsp_buff ! 6) (rsp_buff ! 7))"
    using len by (simp add: gen_code_at_def MX_ALLOC_LEN_def)
  have big: "8 \<le> MX_ALLOC_LEN" by (simp add: MX_ALLOC_LEN_def)
  have l8: "page_code \<noteq> 0xa \<Longrightarrow> 8 \<le> unat (rsp_buff ! 2) * 256 + unat (rsp_buff ! 3) + 4"
    using carries by simp
  have decode:
    "\<And>n. 8 \<le> n \<Longrightarrow> ses_enclosure_sdg ehp res ref_gen_code rsp_buff n inner_hex filt =
       [Printf ''Enclosure status diagnostic page:\<newline>'' [],
        Printf ''  INVOP=%d, INFO=%d, NON-CRIT=%d, CRIT=%d, UNRECOV=%d\<newline>''
          [I (nz (rsp_buff ! 1) 0x10), I (nz (rsp_buff ! 1) 0x8),
           I (nz (rsp_buff ! 1) 0x4), I (nz (rsp_buff ! 1) 0x2),
           I (nz (rsp_buff ! 1) 0x1)],
        Printf ''  generation code: 0x%x\<newline>''
          [I (uint (be32 (rsp_buff ! 4) (rsp_buff ! 5) (rsp_buff ! 6) (rsp_buff ! 7)))],
        Eprintf ''  <<state of enclosure changed, please try again>>\<newline>'' []]"
    "\<And>n. 8 \<le> n \<Longrightarrow> ses_threshold_sdg ehp res ref_gen_code rsp_buff n inner_hex =
       [Printf ''Threshold In diagnostic page:\<newline>'' [],
        Printf ''  INVOP=%d\<newline>'' [I (nz (rsp_buff ! 1) 0x10)],
        Printf ''  generation code: 0x%x\<newline>''
          [I (uint (be32 (rsp_buff ! 4) (rsp_buff ! 5) (rsp_buff ! 6) (rsp_buff ! 7)))],
        Eprintf ''  <<state of enclosure changed, please try again>>\<newline>'' []]"
    "\<And>n. 8 \<le> n \<Longrightarrow> ses_element_desc_sdg ehp res ref_gen_code rsp_buff n =
       [Printf ''Element descriptor In diagnostic page:\<newline>'' [],
        Printf ''  generation code: 0x%x\<newline>''
          [I (uint (be32 (rsp_buff ! 4) (rsp_buff ! 5) (rsp_buff ! 6) (rsp_buff ! 7)))],
        Eprintf ''  <<state of enclosure changed, please try again>>\<newline>'' []]"
    "\<And>n. 4 \<le> n \<Longrightarrow> ses_device_elem_sdg ehp res ref_gen_code rsp_buff n =
       [Printf ''Device element status diagnostic page:\<newline>'' [],
        Printf ''  generation code: 0x%x\<newline>''
          [I (uint (be32 (rsp_buff ! 4) (rsp_buff ! 5) (rsp_buff ! 6) (rsp_buff ! 7)))],
        Eprintf ''  <<state of enclosure changed, please try again>>\<newline>'' []]"
    using mismatch
    by (simp_all add: ses_enclosure_sdg_def ses_threshold_sdg_def ses_element_desc_sdg_def
          ses_device_elem_sdg_def reads gen state_changed_def)
  from pc consider "page_code = 2" | "page_code = 5" | "page_code = 7" | "page_code = 0xa"
    by auto
  then show ?thesis
  proof cases
    case 1
    with mode page l8 big show ?thesis
      unfolding ses_process_status_def rcv
      by (simp add: reads pop Let_def decode)
  next
    case 2
    with mode page l8 big show ?thesis
      unfolding ses_process_status_def rcv
      by (simp add: reads pop Let_def decode)
  next
    case 3
    with mode page l8 big show ?thesis
      unfolding ses_process_status_def rcv
      by (simp add: reads pop Let_def decode)
  next
    case 4
    with mode page show ?thesis
      unfolding ses_process_status_def rcv
      by (simp add: reads pop Let_def decode MX_ALLOC_LEN_def)
  qed
qed

lemma length_enclosure_page_stale: "length enclosure_page_stale = 32"
  by (simp add: enclosure_page_stale_def)

lemma length_threshold_page_stale: "length threshold_page_stale = 32"
  by (simp add: threshold_page_stale_def)

lemma nth_padded: "i < length xs \<Longrightarrow> (xs @ replicate n 0) ! i = xs ! i"
  by (simp add: nth_append)

theorem generation_mismatch_reports_stale_witness:
  "ses_process_status scripted
       [Ioctl_done SG_LIB_CAT_CLEAN enclosure_page_stale,
        Ioctl_done SG_LIB_CAT_CLEAN config_with_text]
       2 False False False False 0 element_hdr_arr (replicate MX_ALLOC_LEN 0) =
     ([Sg_io [0x1c, 1, 2, 0x10, 0, 0],
       Sg_io [0x1c, 1, 1, 0x10, 0, 0],
       Out (Printf ''Enclosure status diagnostic page:\<newline>'' []),
       Out (Printf ''  INVOP=%d, INFO=%d, NON-CRIT=%d, CRIT=%d, UNRECOV=%d\<newline>''
              [I 0, I 0, I 0, I 0, I 0]),
       Out (Printf ''  generation code: 0x%x\<newline>'' [I 0x2B]),
       Out (Eprintf ''  <<state of enclosure changed, please try again>>\<newline>'' [])],
      [])"
proof -
  let ?buf = "enclosure_page_stale @ replicate 4064 0"
  have pc: "(2::nat) \<in> {2, 5, 7, 0xa}" by simp
  have rcv: "do_rcvdiag scripted
               [Ioctl_done SG_LIB_CAT_CLEAN enclosure_page_stale,
                Ioctl_done SG_LIB_CAT_CLEAN config_with_text]
               True 2 (replicate MX_ALLOC_LEN 0) MX_ALLOC_LEN True 0 =
             ([Sg_io [0x1c, 1, 2, 0x10, 0, 0]], 0, ?buf,
              [Ioctl_done SG_LIB_CAT_CLEAN config_with_text])"
    using do_rcvdiag_scripted
            [of enclosure_page_stale "[Ioctl_done SG_LIB_CAT_CLEAN config_with_text]" 2]
    by (simp add: length_enclosure_page_stale rcvdiagCmdBlk_def MX_ALLOC_LEN_def)
  have bytes: "?buf ! 0 = 2" "?buf ! Suc 0 = 0" "?buf ! 2 = 0" "?buf ! 3 = 0x1C"
    "?buf ! 4 = 0" "?buf ! 5 = 0" "?buf ! 6 = 0" "?buf ! 7 = 0x2B"
    by (simp_all add: nth_padded length_enclosure_page_stale)
       (simp_all add: enclosure_page_stale_def)
  have page: "unat (?buf ! 0) = 2" by (simp add: bytes)
  have carries: "(2::nat) \<noteq> 0xa \<longrightarrow> 4 \<le> unat (?buf ! 2) * 256 + unat (?buf ! 3)"
    by (simp add: bytes)
  have mismatch: "be32 (?buf ! 4) (?buf ! 5) (?buf ! 6) (?buf ! 7) \<noteq> 0x2A"
    by (simp add: bytes be32_def)
  have nzs: "nz 0 0x10 = 0" "nz 0 0x8 = 0" "nz 0 0x4 = 0" "nz 0 0x2 = 0" "nz 0 0x1 = 0"
    by (simp_all add: nz_def)
  show ?thesis
    using generation_mismatch_reports_stale
            [OF pc _ _ rcv page carries populate_config_with_text [of "[]"] mismatch,
             of False False False False]
    by (simp add: bytes be32_def nzs MX_ALLOC_LEN_def)
qed

subsection \<open>The order of the receive operations\<close>

lemma sg_io_cdbs_append: "sg_io_cdbs (a @ b) = sg_io_cdbs a @ sg_io_cdbs b"
  by (induction a rule: sg_io_cdbs.induct) auto

lemma sg_io_cdbs_Out: "sg_io_cdbs (map Out outs) = []"
  by (induction outs) auto

lemma sg_io_cdbs_Out_comp: "sg_io_cdbs (map (Out \<circ> f) xs) = []"
  by (induction xs) auto

lemma sg_io_cdbs_do_rcvdiag:
  "do_rcvdiag io fd pcv pg_code resp mx_resp_len noisy verbose = (ev, rc, resp', fd') \<Longrightarrow>
   sg_io_cdbs ev = [rcvdiagCmdBlk pcv pg_code mx_resp_len]"
  by (auto simp: do_rcvdiag_def Let_def sg_io_cdbs_append sg_io_cdbs_Out sg_io_cdbs_Out_comp
           split: prod.splits sg_io_result.splits sg_lib_cat.splits if_splits)

lemma sg_io_cdbs_populate:
  assumes "populate_element_hdr_arr io fd ehp resp0 verbose = ((pev, ehp', res), fd')"
  shows "sg_io_cdbs pev = [rcvdiagCmdBlk True 1 MX_ALLOC_LEN]"
proof -
  obtain ev rc resp fd1 where rcv:
    "do_rcvdiag io fd True 1 resp0 MX_ALLOC_LEN True verbose = (ev, rc, resp, fd1)"
    by (cases "do_rcvdiag io fd True 1 resp0 MX_ALLOC_LEN True verbose") auto
  have ev: "sg_io_cdbs ev = [rcvdiagCmdBlk True 1 MX_ALLOC_LEN]"
    using sg_io_cdbs_do_rcvdiag [OF rcv] .
  from assms show ?thesis
    unfolding populate_element_hdr_arr_def rcv
    by (auto simp: Let_def sg_io_cdbs_append sg_io_cdbs_Out ev
             split: if_splits option.splits prod.splits)
qed

lemma element_keyed_receive_order:
  assumes "page_code \<in> {2, 5, 7, 0xa}"
  shows "sg_io_cdbs (fst (ses_process_status io sg_fd page_code do_raw do_hex inner_hex filt
                           verbose ehp0 resp0)) =
           rcvdiagCmdBlk True page_code MX_ALLOC_LEN #
           (case do_rcvdiag io sg_fd True page_code (replicate MX_ALLOC_LEN 0) MX_ALLOC_LEN True
                   verbose of
              (ev, rc, rsp_buff, fd1) \<Rightarrow>
                if rc = 0 \<and> unat (rsp_buff ! 0) = page_code \<and> \<not> do_raw \<and> \<not> do_hex
                then [rcvdiagCmdBlk True 1 MX_ALLOC_LEN]
                else [])"
proof -
  obtain ev rc rsp_buff fd1 where rcv:
    "do_rcvdiag io sg_fd True page_code (replicate MX_ALLOC_LEN 0) MX_ALLOC_LEN True verbose =
       (ev, rc, rsp_buff, fd1)"
    by (cases "do_rcvdiag io sg_fd True page_code (replicate MX_ALLOC_LEN 0) MX_ALLOC_LEN True
                 verbose") auto
  have ev: "sg_io_cdbs ev = [rcvdiagCmdBlk True page_code MX_ALLOC_LEN]"
    using sg_io_cdbs_do_rcvdiag [OF rcv] .
  have len: "length rsp_buff = MX_ALLOC_LEN"
    using length_do_rcvdiag [OF rcv] by simp
  have reads: "rd rsp_buff 0 = Some (rsp_buff ! 0)" "rd rsp_buff (Suc 0) = Some (rsp_buff ! 1)"
    "rd rsp_buff 2 = Some (rsp_buff ! 2)" "rd rsp_buff 3 = Some (rsp_buff ! 3)"
    using len by (simp_all add: rd_in_range MX_ALLOC_LEN_def)
  obtain pev ehp res fd2 where pop:
    "populate_element_hdr_arr io fd1 ehp0 resp0 verbose = ((pev, ehp, res), fd2)"
    by (cases "populate_element_hdr_arr io fd1 ehp0 resp0 verbose") auto
  have pev: "sg_io_cdbs pev = [rcvdiagCmdBlk True 1 MX_ALLOC_LEN]"
    using sg_io_cdbs_populate [OF pop] .
  show ?thesis
  proof (cases "rc = 0 \<and> unat (rsp_buff ! 0) = page_code \<and> \<not> do_raw \<and> \<not> do_hex")
    case True
    with assms show ?thesis
      unfolding ses_process_status_def rcv
      by (cases res)
         (auto simp: reads Let_def pop sg_io_cdbs_append sg_io_cdbs_Out ev pev)
  next
    case False
    then show ?thesis
      unfolding ses_process_status_def rcv
      by (auto simp: reads Let_def sg_io_cdbs_append sg_io_cdbs_Out ev)
  qed
qed

lemma do_rcvdiag_threshold_page_stale:
  "do_rcvdiag scripted
     [Ioctl_done SG_LIB_CAT_CLEAN threshold_page_stale,
      Ioctl_done SG_LIB_CAT_CLEAN config_with_text]
     True 5 (replicate MX_ALLOC_LEN 0) MX_ALLOC_LEN True 0 =
   ([Sg_io (rcvdiagCmdBlk True 5 MX_ALLOC_LEN)], 0,
    threshold_page_stale @ replicate 4064 0,
    [Ioctl_done SG_LIB_CAT_CLEAN config_with_text])"
  using do_rcvdiag_scripted
          [of threshold_page_stale "[Ioctl_done SG_LIB_CAT_CLEAN config_with_text]" 5]
  by (simp add: length_threshold_page_stale MX_ALLOC_LEN_def)

lemma element_keyed_trace:
  assumes pc: "page_code \<in> {2, 5, 7, 0xa}"
    and rcv: "do_rcvdiag io sg_fd True page_code (replicate MX_ALLOC_LEN 0) MX_ALLOC_LEN True
                verbose = (ev, rc, rsp_buff, fd1)"
    and pop: "populate_element_hdr_arr io fd1 ehp0 resp0 verbose = ((pev, ehp, res), fd2)"
    and ok: "rc = 0" "unat (rsp_buff ! 0) = page_code" "\<not> do_raw" "\<not> do_hex"
  shows "fst (ses_process_status io sg_fd page_code do_raw do_hex inner_hex filt verbose
                 ehp0 resp0) =
           ev
           @ map Out
               (if unat (rsp_buff ! 2) * 256 + unat (rsp_buff ! 3) + 4 > MX_ALLOC_LEN
                then [Eprintf ''<<< warning response buffer too small [%d but need %d]>>>\<newline>''
                        [I (int MX_ALLOC_LEN),
                         I (int (unat (rsp_buff ! 2) * 256 + unat (rsp_buff ! 3) + 4))]]
                else [])
           @ pev
           @ map Out
               (case res of
                  None \<Rightarrow> []
                | Some (num_telems, ref_gen_code) \<Rightarrow>
                    (let rsp_len = min (unat (rsp_buff ! 2) * 256 + unat (rsp_buff ! 3) + 4)
                                     MX_ALLOC_LEN
                     in if page_code = 2 then
                          ses_enclosure_sdg ehp num_telems ref_gen_code rsp_buff rsp_len
                            inner_hex filt
                        else if page_code = 5 then
                          ses_threshold_sdg ehp num_telems ref_gen_code rsp_buff rsp_len
                            inner_hex
                        else if page_code = 7 then
                          ses_element_desc_sdg ehp num_telems ref_gen_code rsp_buff rsp_len
                        else
                          ses_device_elem_sdg ehp num_telems ref_gen_code rsp_buff rsp_len))"
proof -
  have len: "length rsp_buff = MX_ALLOC_LEN"
    using length_do_rcvdiag [OF rcv] by simp
  have reads: "rd rsp_buff 0 = Some (rsp_buff ! 0)" "rd rsp_buff (Suc 0) = Some (rsp_buff ! 1)"
    "rd rsp_buff 2 = Some (rsp_buff ! 2)" "rd rsp_buff 3 = Some (rsp_buff ! 3)"
    using len by (simp_all add: rd_in_range MX_ALLOC_LEN_def)
  have m: "\<And>a b::nat. (if b < a then b else a) = min a b" by (simp add: min_def)
  from pc consider "page_code = 2" | "page_code = 5" | "page_code = 7" | "page_code = 0xa"
    by auto
  then show ?thesis
  proof cases
    case 1
    with ok show ?thesis
      unfolding ses_process_status_def rcv
      by (cases res) (auto simp: reads pop Let_def min_def)
  next
    case 2
    with ok show ?thesis
      unfolding ses_process_status_def rcv
      by (cases res) (auto simp: reads pop Let_def min_def)
  next
    case 3
    with ok show ?thesis
      unfolding ses_process_status_def rcv
      by (cases res) (auto simp: reads pop Let_def min_def)
  next
    case 4
    with ok show ?thesis
      unfolding ses_process_status_def rcv
      by (cases res) (auto simp: reads pop Let_def min_def)
  qed
qed


lemma length_enclosure_page_current: "length enclosure_page_current = 32"
  by (simp add: enclosure_page_current_def)

lemma ses_enclosure_sdg_enclosure_page_current:
  "ses_enclosure_sdg
     (element_hdr_arr
        [0 := \<lparr>etype = 1, num_elements = 3, se_id = 0, unused = 0\<rparr>,
         Suc 0 := \<lparr>etype = 2, num_elements = 1, se_id = 0, unused = 0\<rparr>])
     2 0x2A (enclosure_page_current @ replicate 4064 0) 32 True False =
   [Printf ''Enclosure status diagnostic page:\<newline>'' [],
    Printf ''  INVOP=%d, INFO=%d, NON-CRIT=%d, CRIT=%d, UNRECOV=%d\<newline>''
      [I 0, I 0, I 0, I 0, I 0],
    Printf ''  generation code: 0x%x\<newline>'' [I 0x2A],
    Printf ''    Element type: %s, subenclosure id: %d\<newline>'' [S ''Device'', I 0],
    Printf ''    Overall status(hex): %02x %02x %02x %02x\<newline>'' [I 1, I 0, I 0, I 0],
    Printf ''      Element %d status(hex): %02x %02x %02x %02x\<newline>''
      [I 1, I 0x01, I 0x05, I 0xA0, I 0x12],
    Printf ''      Element %d status(hex): %02x %02x %02x %02x\<newline>''
      [I 2, I 0x01, I 0x06, I 0, I 0],
    Printf ''      Element %d status(hex): %02x %02x %02x %02x\<newline>''
      [I 3, I 0x05, I 0x07, I 0, I 0],
    Printf ''    Element type: %s, subenclosure id: %d\<newline>'' [S ''Power supply'', I 0],
    Printf ''    Overall status(hex): %02x %02x %02x %02x\<newline>'' [I 1, I 0, I 0, I 0],
    Printf ''      Element %d status(hex): %02x %02x %02x %02x\<newline>''
      [I 1, I 0x01, I 0, I 0, I 0x20]]"
proof -
  have hdrs:
    "hdr_at (element_hdr_arr
        [0 := \<lparr>etype = 1, num_elements = 3, se_id = 0, unused = 0\<rparr>,
         Suc 0 := \<lparr>etype = 2, num_elements = 1, se_id = 0, unused = 0\<rparr>]) 0 =
       Some \<lparr>etype = 1, num_elements = 3, se_id = 0, unused = 0\<rparr>"
    "hdr_at (element_hdr_arr
        [0 := \<lparr>etype = 1, num_elements = 3, se_id = 0, unused = 0\<rparr>,
         Suc 0 := \<lparr>etype = 2, num_elements = 1, se_id = 0, unused = 0\<rparr>]) (Suc 0) =
       Some \<lparr>etype = 2, num_elements = 1, se_id = 0, unused = 0\<rparr>"
    by (simp_all add: hdr_at_def element_hdr_arr_def MX_ELEM_HDR_def)
  have rd4s: "\<And>off. off + 4 \<le> 32 \<Longrightarrow>
       rd4 (enclosure_page_current @ replicate 4064 0) off =
         Some (enclosure_page_current ! off, enclosure_page_current ! (off + 1),
               enclosure_page_current ! (off + 2), enclosure_page_current ! (off + 3))"
    by (simp add: rd4_def nth_append length_enclosure_page_current)
  have lines: "element_type_line ''    '' \<lparr>etype = 1, num_elements = 3, se_id = 0, unused = 0\<rparr> =
        Printf ''    Element type: %s, subenclosure id: %d\<newline>'' [S ''Device'', I 0]"
     "element_type_line ''    '' \<lparr>etype = 2, num_elements = 1, se_id = 0, unused = 0\<rparr> =
        Printf ''    Element type: %s, subenclosure id: %d\<newline>'' [S ''Power supply'', I 0]"
    by (simp_all add: element_type_line_def find_element_desc_def find_desc.simps element_desc_arr_def)
  show ?thesis
    by (simp add: ses_enclosure_sdg_def rd_padded gen_code_at_padded
          length_enclosure_page_current ses_enclosure_types.simps ses_enclosure_elems.simps
          hdrs rd4s lines)
       (simp add: enclosure_page_current_def be32_def nz_def)
qed


lemma do_rcvdiag_enclosure_page_current:
  "do_rcvdiag scripted
     [Ioctl_done SG_LIB_CAT_CLEAN enclosure_page_current,
      Ioctl_done SG_LIB_CAT_CLEAN config_with_text]
     True 2 (replicate MX_ALLOC_LEN 0) MX_ALLOC_LEN True 0 =
   ([Sg_io (rcvdiagCmdBlk True 2 MX_ALLOC_LEN)], 0,
    enclosure_page_current @ replicate 4064 0,
    [Ioctl_done SG_LIB_CAT_CLEAN config_with_text])"
  using do_rcvdiag_scripted
          [of enclosure_page_current "[Ioctl_done SG_LIB_CAT_CLEAN config_with_text]" 2]
  by (simp add: length_enclosure_page_current MX_ALLOC_LEN_def)

text \<open>
  C2, as the specification states it, does not hold. For a Threshold In request the
  receive operations are, in this order, the one for page 0x05 and the one for the
  Configuration page 0x01.
\<close>

theorem configuration_is_not_fetched_first_counterexample:
  "sg_io_cdbs
     (fst (ses_process_status scripted
             [Ioctl_done SG_LIB_CAT_CLEAN threshold_page_stale,
              Ioctl_done SG_LIB_CAT_CLEAN config_with_text]
             5 False False False False 0 element_hdr_arr (replicate MX_ALLOC_LEN 0))) =
   [[0x1c, 1, 5, 0x10, 0, 0], [0x1c, 1, 1, 0x10, 0, 0]]"
proof -
  have pc: "(5::nat) \<in> {2, 5, 7, 0xa}" by simp
  have page: "unat ((threshold_page_stale @ replicate 4064 0) ! 0) = 5"
    by (simp add: nth_padded length_threshold_page_stale) (simp add: threshold_page_stale_def)
  show ?thesis
    unfolding element_keyed_receive_order [OF pc] do_rcvdiag_threshold_page_stale
    using page by (simp add: rcvdiagCmdBlk_values)
qed

text \<open>
  C2, amended. For a request for one of the pages 0x02, 0x05, 0x07 and 0x0a the first
  receive operation is the one for the target page. The Configuration page is received
  after it, and only when the target page was received with the requested page code
  and neither raw nor hex output is asked for; there is no third receive operation. In
  that case the trace of the request is, in this order: the receive of the target page,
  the warning about a response longer than the buffer if there is one, the receive of
  the Configuration page with the building of the element map, and the output of the
  decoder of the target page, which runs on the element map just built; when building the
  map fails, no decoder runs.
\<close>

theorem target_page_is_fetched_before_configuration:
  assumes "page_code \<in> {2, 5, 7, 0xa}"
    and "do_rcvdiag io sg_fd True page_code (replicate MX_ALLOC_LEN 0) MX_ALLOC_LEN True
           verbose = (ev, rc, rsp_buff, fd1)"
    and "populate_element_hdr_arr io fd1 ehp0 resp0 verbose = ((pev, ehp, res), fd2)"
  shows "sg_io_cdbs ev = [rcvdiagCmdBlk True page_code MX_ALLOC_LEN]
     \<and> sg_io_cdbs pev = [rcvdiagCmdBlk True 1 MX_ALLOC_LEN]
     \<and> sg_io_cdbs (fst (ses_process_status io sg_fd page_code do_raw do_hex inner_hex filt
                           verbose ehp0 resp0)) =
           rcvdiagCmdBlk True page_code MX_ALLOC_LEN #
           (if rc = 0 \<and> unat (rsp_buff ! 0) = page_code \<and> \<not> do_raw \<and> \<not> do_hex
            then [rcvdiagCmdBlk True 1 MX_ALLOC_LEN]
            else [])
     \<and> (rc = 0 \<and> unat (rsp_buff ! 0) = page_code \<and> \<not> do_raw \<and> \<not> do_hex \<longrightarrow>
          fst (ses_process_status io sg_fd page_code do_raw do_hex inner_hex filt verbose
                 ehp0 resp0) =
            ev
            @ map Out
                (if unat (rsp_buff ! 2) * 256 + unat (rsp_buff ! 3) + 4 > MX_ALLOC_LEN
                 then [Eprintf ''<<< warning response buffer too small [%d but need %d]>>>\<newline>''
                         [I (int MX_ALLOC_LEN),
                          I (int (unat (rsp_buff ! 2) * 256 + unat (rsp_buff ! 3) + 4))]]
                 else [])
            @ pev
            @ map Out
                (case res of
                   None \<Rightarrow> []
                 | Some (num_telems, ref_gen_code) \<Rightarrow>
                     (let rsp_len = min (unat (rsp_buff ! 2) * 256 + unat (rsp_buff ! 3) + 4)
                                      MX_ALLOC_LEN
                      in if page_code = 2 then
                           ses_enclosure_sdg ehp num_telems ref_gen_code rsp_buff rsp_len
                             inner_hex filt
                         else if page_code = 5 then
                           ses_threshold_sdg ehp num_telems ref_gen_code rsp_buff rsp_len
                             inner_hex
                         else if page_code = 7 then
                           ses_element_desc_sdg ehp num_telems ref_gen_code rsp_buff rsp_len
                         else
                           ses_device_elem_sdg ehp num_telems ref_gen_code rsp_buff rsp_len)))"
proof (intro conjI impI)
  show "sg_io_cdbs ev = [rcvdiagCmdBlk True page_code MX_ALLOC_LEN]"
    using sg_io_cdbs_do_rcvdiag [OF assms(2)] .
  show "sg_io_cdbs pev = [rcvdiagCmdBlk True 1 MX_ALLOC_LEN]"
    using sg_io_cdbs_populate [OF assms(3)] .
  show "sg_io_cdbs (fst (ses_process_status io sg_fd page_code do_raw do_hex inner_hex filt
                           verbose ehp0 resp0)) =
           rcvdiagCmdBlk True page_code MX_ALLOC_LEN #
           (if rc = 0 \<and> unat (rsp_buff ! 0) = page_code \<and> \<not> do_raw \<and> \<not> do_hex
            then [rcvdiagCmdBlk True 1 MX_ALLOC_LEN]
            else [])"
    using element_keyed_receive_order [OF assms(1), of io sg_fd do_raw do_hex inner_hex filt
            verbose ehp0 resp0]
    unfolding assms(2) by simp
next
  assume "rc = 0 \<and> unat (rsp_buff ! 0) = page_code \<and> \<not> do_raw \<and> \<not> do_hex"
  then have ok: "rc = 0" "unat (rsp_buff ! 0) = page_code" "\<not> do_raw" "\<not> do_hex"
    by simp_all
  show "fst (ses_process_status io sg_fd page_code do_raw do_hex inner_hex filt verbose
                 ehp0 resp0) =
            ev
            @ map Out
                (if unat (rsp_buff ! 2) * 256 + unat (rsp_buff ! 3) + 4 > MX_ALLOC_LEN
                 then [Eprintf ''<<< warning response buffer too small [%d but need %d]>>>\<newline>''
                         [I (int MX_ALLOC_LEN),
                          I (int (unat (rsp_buff ! 2) * 256 + unat (rsp_buff ! 3) + 4))]]
                 else [])
            @ pev
            @ map Out
                (case res of
                   None \<Rightarrow> []
                 | Some (num_telems, ref_gen_code) \<Rightarrow>
                     (let rsp_len = min (unat (rsp_buff ! 2) * 256 + unat (rsp_buff ! 3) + 4)
                                      MX_ALLOC_LEN
                      in if page_code = 2 then
                           ses_enclosure_sdg ehp num_telems ref_gen_code rsp_buff rsp_len
                             inner_hex filt
                         else if page_code = 5 then
                           ses_threshold_sdg ehp num_telems ref_gen_code rsp_buff rsp_len
                             inner_hex
                         else if page_code = 7 then
                           ses_element_desc_sdg ehp num_telems ref_gen_code rsp_buff rsp_len
                         else
                           ses_device_elem_sdg ehp num_telems ref_gen_code rsp_buff rsp_len))"
    using element_keyed_trace [OF assms(1) assms(2) assms(3) ok] .
qed

theorem target_page_is_fetched_before_configuration_witness:
  "sg_io_cdbs
     (fst (ses_process_status scripted
             [Ioctl_done SG_LIB_CAT_CLEAN enclosure_page_current,
              Ioctl_done SG_LIB_CAT_CLEAN config_with_text]
             2 False False True False 0 element_hdr_arr (replicate MX_ALLOC_LEN 0))) =
     [[0x1c, 1, 2, 0x10, 0, 0], [0x1c, 1, 1, 0x10, 0, 0]]
   \<and> fst (ses_process_status scripted
             [Ioctl_done SG_LIB_CAT_CLEAN enclosure_page_current,
              Ioctl_done SG_LIB_CAT_CLEAN config_with_text]
             2 False False True False 0 element_hdr_arr (replicate MX_ALLOC_LEN 0)) =
     [Sg_io [0x1c, 1, 2, 0x10, 0, 0],
      Sg_io [0x1c, 1, 1, 0x10, 0, 0],
      Out (Printf ''Enclosure status diagnostic page:\<newline>'' []),
      Out (Printf ''  INVOP=%d, INFO=%d, NON-CRIT=%d, CRIT=%d, UNRECOV=%d\<newline>''
             [I 0, I 0, I 0, I 0, I 0]),
      Out (Printf ''  generation code: 0x%x\<newline>'' [I 0x2A]),
      Out (Printf ''    Element type: %s, subenclosure id: %d\<newline>'' [S ''Device'', I 0]),
      Out (Printf ''    Overall status(hex): %02x %02x %02x %02x\<newline>''
             [I 1, I 0, I 0, I 0]),
      Out (Printf ''      Element %d status(hex): %02x %02x %02x %02x\<newline>''
             [I 1, I 0x01, I 0x05, I 0xA0, I 0x12]),
      Out (Printf ''      Element %d status(hex): %02x %02x %02x %02x\<newline>''
             [I 2, I 0x01, I 0x06, I 0, I 0]),
      Out (Printf ''      Element %d status(hex): %02x %02x %02x %02x\<newline>''
             [I 3, I 0x05, I 0x07, I 0, I 0]),
      Out (Printf ''    Element type: %s, subenclosure id: %d\<newline>''
             [S ''Power supply'', I 0]),
      Out (Printf ''    Overall status(hex): %02x %02x %02x %02x\<newline>''
             [I 1, I 0, I 0, I 0]),
      Out (Printf ''      Element %d status(hex): %02x %02x %02x %02x\<newline>''
             [I 1, I 0x01, I 0, I 0, I 0x20])]"
proof -
  let ?buf = "enclosure_page_current @ replicate 4064 0"
  have pc: "(2::nat) \<in> {2, 5, 7, 0xa}" by simp
  have bytes: "?buf ! 0 = 2" "?buf ! 2 = 0" "?buf ! 3 = 0x1C"
    by (simp_all add: nth_padded length_enclosure_page_current)
       (simp_all add: enclosure_page_current_def)
  have small: "\<not> MX_ALLOC_LEN < 32" "min 32 MX_ALLOC_LEN = 32"
    by (simp_all add: MX_ALLOC_LEN_def)
  show ?thesis
    using target_page_is_fetched_before_configuration
            [OF pc do_rcvdiag_enclosure_page_current populate_config_with_text [of "[]"],
             of False False True False]
    by (simp add: bytes rcvdiagCmdBlk_values small
          ses_enclosure_sdg_enclosure_page_current)
qed

subsection \<open>The bound of the header array\<close>










end
